theory Spec2Isabelle
  imports Main "HOL-Library.AList" "HOL-Library.Char_ord" "HOL-Library.List_Lexorder"
begin

section \<open>Python text primitives\<close>

text \<open>
  Text is modelled as \<^typ>\<open>string\<close>, that is, over 8-bit characters; the helper
  functions below follow Python's \<^verbatim>\<open>str\<close> methods on ASCII text.
  \<^verbatim>\<open>str.isspace\<close> (and the regular-expression class \<^verbatim>\<open>\s\<close>) holds for
  TAB, LF, VT, FF, CR, the separators 0x1C..0x1F and the blank.
\<close>

definition isspace :: "char \<Rightarrow> bool" where
  "isspace c = (c \<in> set [CHR 0x09, CHR 0x0A, CHR 0x0B, CHR 0x0C, CHR 0x0D,
                           CHR 0x1C, CHR 0x1D, CHR 0x1E, CHR 0x1F, CHR 0x20])"

definition lower_char :: "char \<Rightarrow> char" where
  "lower_char c = (if CHR ''A'' \<le> c \<and> c \<le> CHR ''Z'' then char_of (of_char c + (32::nat)) else c)"

definition upper_char :: "char \<Rightarrow> char" where
  "upper_char c = (if CHR ''a'' \<le> c \<and> c \<le> CHR ''z'' then char_of (of_char c - (32::nat)) else c)"

definition lower :: "string \<Rightarrow> string" where
  "lower s = map lower_char s"

definition upper :: "string \<Rightarrow> string" where
  "upper s = map upper_char s"

definition strip :: "string \<Rightarrow> string" where
  "strip s = rev (dropWhile isspace (rev (dropWhile isspace s)))"

text \<open>\<^verbatim>\<open>sep.join(items)\<close>\<close>

fun join :: "string \<Rightarrow> string list \<Rightarrow> string" where
  "join sep [] = []"
| "join sep [x] = x"
| "join sep (x # y # ys) = x @ sep @ join sep (y # ys)"

text \<open>\<^verbatim>\<open>s.split(c)\<close> for a one-character separator: never empty.\<close>

fun split_on :: "char \<Rightarrow> string \<Rightarrow> string list" where
  "split_on sep [] = [[]]"
| "split_on sep (c # cs) =
     (if c = sep then [] # split_on sep cs
      else (case split_on sep cs of [] \<Rightarrow> [[c]] | w # ws \<Rightarrow> (c # w) # ws))"

text \<open>
  \<^verbatim>\<open>s.split(c, 1)\<close> where \<^verbatim>\<open>c in s\<close>: the text before the first separator
  and the text after it.
\<close>

definition split1 :: "char \<Rightarrow> string \<Rightarrow> string \<times> string" where
  "split1 sep s = (takeWhile (\<lambda>c. c \<noteq> sep) s, drop 1 (dropWhile (\<lambda>c. c \<noteq> sep) s))"

text \<open>\<^verbatim>\<open>[item.strip() for item in s.split(",") if item.strip()]\<close>\<close>

definition comma_items :: "string \<Rightarrow> string list" where
  "comma_items s = filter (\<lambda>item. item \<noteq> []) (map strip (split_on CHR '','' s))"

text \<open>\<^verbatim>\<open>needle in s\<close> on strings, and \<^verbatim>\<open>s.startswith(p)\<close>.\<close>

fun startswith :: "string \<Rightarrow> string \<Rightarrow> bool" where
  "startswith s [] = True"
| "startswith [] (p # ps) = False"
| "startswith (c # cs) (p # ps) = (c = p \<and> startswith cs ps)"

fun contains :: "string \<Rightarrow> string \<Rightarrow> bool" where
  "contains [] needle = (needle = [])"
| "contains (c # cs) needle = (startswith (c # cs) needle \<or> contains cs needle)"

text \<open>\<^verbatim>\<open>'...'\<close> around a rendered value, as the f-strings of the source write it.\<close>

definition quoted :: "string \<Rightarrow> string" where
  "quoted s = CHR 0x27 # s @ [CHR 0x27]"

subsection \<open>Decimal rendering of integers\<close>

definition digit_char :: "nat \<Rightarrow> char" where
  "digit_char d = char_of (48 + d)"

fun str_nat :: "nat \<Rightarrow> string" where
  "str_nat n = (if n < 10 then [digit_char n] else str_nat (n div 10) @ [digit_char (n mod 10)])"

declare str_nat.simps [simp del]

definition str_int :: "int \<Rightarrow> string" where
  "str_int i = (if i < 0 then CHR ''-'' # str_nat (nat (- i)) else str_nat (nat i))"

lemma digit_char_inj: "a < 10 \<Longrightarrow> b < 10 \<Longrightarrow> digit_char a = digit_char b \<Longrightarrow> a = b"
proof -
  assume a: "a < 10" and b: "b < 10" and e: "digit_char a = digit_char b"
  have "(of_char (digit_char a) :: nat) = of_char (digit_char b)"
    using e by simp
  then have "(48 + a) mod 256 = (48 + b) mod 256"
    by (simp add: digit_char_def)
  then show "a = b"
    using a b by simp
qed

lemma str_nat_nonempty: "str_nat n \<noteq> []"
  by (subst str_nat.simps) simp

lemma str_nat_inj: "str_nat m = str_nat n \<Longrightarrow> m = n"
proof (induction m arbitrary: n rule: str_nat.induct)
  case (1 m)
  show ?case
  proof (cases "m < 10")
    case True
    note m = this
    show ?thesis
    proof (cases "n < 10")
      case True
      with m "1.prems" show ?thesis
        by (simp add: str_nat.simps [of m] str_nat.simps [of n] digit_char_inj)
    next
      case False
      with m "1.prems" show ?thesis
        by (simp add: str_nat.simps [of m] str_nat.simps [of n] str_nat_nonempty str_nat_nonempty [symmetric])
    qed
  next
    case False
    note m = this
    show ?thesis
    proof (cases "n < 10")
      case True
      with m "1.prems" show ?thesis
        by (simp add: str_nat.simps [of m] str_nat.simps [of n] str_nat_nonempty str_nat_nonempty [symmetric])
    next
      case False
      with m "1.prems" have q: "str_nat (m div 10) = str_nat (n div 10)"
        and r: "digit_char (m mod 10) = digit_char (n mod 10)"
        by (simp_all add: str_nat.simps [of m] str_nat.simps [of n])
      from "1.IH" [OF m q] have "m div 10 = n div 10" .
      moreover from r have "m mod 10 = n mod 10"
        by (auto dest!: digit_char_inj [rotated 2])
      ultimately show ?thesis
        by (metis div_mult_mod_eq)
    qed
  qed
qed

section \<open>Dataset registry\<close>

record Column =
  col_name :: string
  col_type :: string
  col_role :: string
  col_description :: "string option"

record Dataset =
  ds_name :: string
  ds_table :: string
  ds_columns :: "Column list"
  ds_related :: "string list"
  ds_default_order_by :: "string option"

definition mk_column :: "string \<Rightarrow> string \<Rightarrow> string \<Rightarrow> string option \<Rightarrow> Column" where
  "mk_column n t r d = \<lparr>col_name = n, col_type = t, col_role = r, col_description = d\<rparr>"

definition subscribers :: Dataset where
  "subscribers = \<lparr>ds_name = ''subscribers'', ds_table = ''subscribers'',
     ds_columns = [
       mk_column ''user_id'' ''uuid'' ''identifier'' (Some ''Unique user identifier.''),
       mk_column ''region'' ''string'' ''category'' (Some ''Geographic region for the user.''),
       mk_column ''plan_type'' ''string'' ''category'' (Some ''Subscription plan type.''),
       mk_column ''join_date'' ''date'' ''temporal'' (Some ''Date the user joined.''),
       mk_column ''status'' ''string'' ''category'' (Some ''Current lifecycle status.''),
       mk_column ''monthly_spend'' ''numeric'' ''measure'' (Some ''Average monthly revenue.'')],
     ds_related = [''payments'', ''logins''],
     ds_default_order_by = Some ''join_date DESC''\<rparr>"

definition payments :: Dataset where
  "payments = \<lparr>ds_name = ''payments'', ds_table = ''payments'',
     ds_columns = [
       mk_column ''payment_id'' ''uuid'' ''identifier'' None,
       mk_column ''user_id'' ''uuid'' ''identifier'' None,
       mk_column ''amount'' ''numeric'' ''measure'' (Some ''Net payment amount in USD.''),
       mk_column ''currency'' ''string'' ''category'' None,
       mk_column ''payment_date'' ''date'' ''temporal'' None,
       mk_column ''status'' ''string'' ''category'' None],
     ds_related = [''subscribers''],
     ds_default_order_by = Some ''payment_date DESC''\<rparr>"

definition logins :: Dataset where
  "logins = \<lparr>ds_name = ''logins'', ds_table = ''logins'',
     ds_columns = [
       mk_column ''user_id'' ''uuid'' ''identifier'' None,
       mk_column ''login_date'' ''date'' ''temporal'' None,
       mk_column ''login_count'' ''numeric'' ''measure'' None,
       mk_column ''device_type'' ''string'' ''category'' None,
       mk_column ''region'' ''string'' ''category'' None,
       mk_column ''plan_type'' ''string'' ''category'' None],
     ds_related = [''subscribers''],
     ds_default_order_by = Some ''login_date DESC''\<rparr>"

definition tickets :: Dataset where
  "tickets = \<lparr>ds_name = ''tickets'', ds_table = ''tickets'',
     ds_columns = [
       mk_column ''ticket_id'' ''uuid'' ''identifier'' None,
       mk_column ''user_id'' ''uuid'' ''identifier'' None,
       mk_column ''opened_at'' ''timestamp'' ''temporal'' None,
       mk_column ''resolved_at'' ''timestamp'' ''temporal'' None,
       mk_column ''category'' ''string'' ''category'' None,
       mk_column ''severity'' ''string'' ''category'' None,
       mk_column ''status'' ''string'' ''category'' None,
       mk_column ''response_time_hours'' ''numeric'' ''measure'' None],
     ds_related = [''subscribers'', ''business_units''],
     ds_default_order_by = Some ''opened_at DESC''\<rparr>"

definition business_units :: Dataset where
  "business_units = \<lparr>ds_name = ''business_units'', ds_table = ''business_units'',
     ds_columns = [
       mk_column ''unit_id'' ''uuid'' ''identifier'' None,
       mk_column ''unit_name'' ''string'' ''category'' None,
       mk_column ''region'' ''string'' ''category'' None,
       mk_column ''revenue'' ''numeric'' ''measure'' None,
       mk_column ''headcount'' ''numeric'' ''measure'' None],
     ds_related = [''tickets'', ''payments''],
     ds_default_order_by = Some ''revenue DESC''\<rparr>"

text \<open>The catalog, a dict of the source, in its insertion order.\<close>

definition DATASETS :: "(string \<times> Dataset) list" where
  "DATASETS = [(''subscribers'', subscribers), (''payments'', payments), (''logins'', logins),
               (''tickets'', tickets), (''business_units'', business_units)]"

datatype exn = ValueError string | RuntimeError string | BackendError

definition list_datasets :: "string list" where
  "list_datasets = sort (map fst DATASETS)"

definition get_dataset :: "string \<Rightarrow> exn + Dataset" where
  "get_dataset n =
     (case map_of DATASETS n of
        Some d \<Rightarrow> Inr d
      | None \<Rightarrow> Inl (ValueError (''Unknown dataset '' @ quoted n @ ''.'')))"

section \<open>Session model\<close>

text \<open>
  A filter value of the source is a string, an int, a float or a tuple of those. The type
  of floats is left open (\<^typ>\<open>'f\<close>); whatever renders a float as text is passed in
  as \<open>str_float\<close>.
\<close>

datatype 'f atom = PStr string | PInt int | PFloat 'f

datatype 'f FilterValue = Scalar "'f atom" | Tuple "'f atom list"

record MeasureSpec =
  ms_column :: string
  ms_aggregation :: string
  ms_alias :: string

text \<open>
  The visualization dict that \<^verbatim>\<open>set_visualization\<close> builds; the key
  \<^verbatim>\<open>options\<close> is present only when options were given.
\<close>

record VisualizationSpec =
  viz_chart_type :: string
  viz_x_fields :: "string list"
  viz_y_measures :: "string list"
  viz_breakdowns :: "string list"
  viz_options :: "(string \<times> string) list option"

text \<open>
  Dicts are association lists in insertion order (\<^const>\<open>AList.update\<close> overwrites
  in place or appends, as a Python dict does); the empty visualization dict is
  \<^const>\<open>None\<close>.
\<close>

record 'f AgentState =
  dataset :: "Dataset option"
  filters :: "(string \<times> 'f FilterValue) list"
  visualization :: "VisualizationSpec option"
  dimensions :: "string list"
  measure_specs :: "MeasureSpec list"

definition init_state :: "'f AgentState" where
  "init_state = \<lparr>dataset = None, filters = [], visualization = None, dimensions = [],
     measure_specs = []\<rparr>"

definition reset :: "'f AgentState \<Rightarrow> 'f AgentState" where
  "reset s = s\<lparr>dataset := None, filters := [], visualization := None, dimensions := [],
     measure_specs := []\<rparr>"

text \<open>
  Every method of the agent returns its result or the exception it raised, together with
  the state it leaves behind.
\<close>

definition require_dataset :: "'f AgentState \<Rightarrow> exn + Dataset" where
  "require_dataset s =
     (case dataset s of
        None \<Rightarrow> Inl (RuntimeError ''A dataset must be selected before performing this operation.'')
      | Some d \<Rightarrow> Inr d)"

definition select_dataset :: "string \<Rightarrow> 'f AgentState \<Rightarrow> (exn + Dataset) \<times> 'f AgentState" where
  "select_dataset dataset_name s =
     (case get_dataset dataset_name of
        Inl e \<Rightarrow> (Inl e, s)
      | Inr d \<Rightarrow>
          (Inr d, s\<lparr>dataset := Some d, filters := [], visualization := None, dimensions := [],
                    measure_specs := []\<rparr>))"

definition add_filter ::
  "string \<Rightarrow> 'f FilterValue \<Rightarrow> 'f AgentState \<Rightarrow> (exn + unit) \<times> 'f AgentState" where
  "add_filter column_name v s =
     (case require_dataset s of
        Inl e \<Rightarrow> (Inl e, s)
      | Inr d \<Rightarrow>
          if column_name \<notin> set (map col_name (ds_columns d))
          then (Inl (ValueError (''Column '' @ quoted column_name @ '' is not available on dataset ''
                                  @ quoted (ds_name d) @ ''.'')), s)
          else (Inr (), s\<lparr>filters := AList.update column_name v (filters s)\<rparr>))"

subsection \<open>WHERE clause and statement\<close>

fun str_atom :: "('f \<Rightarrow> string) \<Rightarrow> 'f atom \<Rightarrow> string" where
  "str_atom str_float (PStr v) = v"
| "str_atom str_float (PInt i) = str_int i"
| "str_atom str_float (PFloat x) = str_float x"

fun where_conjunct :: "('f \<Rightarrow> string) \<Rightarrow> string \<times> 'f FilterValue \<Rightarrow> string" where
  "where_conjunct str_float (col, Tuple items) =
     (if length items = 2
      then col @ '' BETWEEN '' @ quoted (str_atom str_float (items ! 0))
               @ '' AND '' @ quoted (str_atom str_float (items ! 1))
      else col @ '' IN ('' @ join '', '' (map (\<lambda>item. quoted (str_atom str_float item)) items) @ '')'')"
| "where_conjunct str_float (col, Scalar (PStr v)) = col @ '' = '' @ quoted v"
| "where_conjunct str_float (col, Scalar v) = col @ '' = '' @ str_atom str_float v"

definition build_where_clause :: "('f \<Rightarrow> string) \<Rightarrow> 'f AgentState \<Rightarrow> string" where
  "build_where_clause str_float s =
     (if filters s = [] then []
      else '' WHERE '' @ join '' AND '' (map (where_conjunct str_float) (filters s)))"

definition select_part :: "MeasureSpec \<Rightarrow> string" where
  "select_part spec = ms_aggregation spec @ ''('' @ ms_column spec @ '') AS '' @ ms_alias spec"

definition build_sql_query :: "('f \<Rightarrow> string) \<Rightarrow> int \<Rightarrow> 'f AgentState \<Rightarrow> exn + string" where
  "build_sql_query str_float limit s =
     (case require_dataset s of
        Inl e \<Rightarrow> Inl e
      | Inr d \<Rightarrow>
          let where_clause = build_where_clause str_float s in
          if measure_specs s \<noteq> [] then
            let select_parts = dimensions s @ map select_part (measure_specs s);
                select_clause = (if select_parts \<noteq> [] then join '', '' select_parts else ''*'');
                group_clause = (if dimensions s \<noteq> [] then '' GROUP BY '' @ join '', '' (dimensions s) else []);
                order_clause = (if dimensions s \<noteq> [] then '' ORDER BY '' @ join '', '' (dimensions s) else [])
            in Inr (''SELECT '' @ select_clause @ '' FROM '' @ ds_table d @ where_clause @ group_clause
                    @ order_clause @ '' LIMIT '' @ str_int limit @ '';'')
          else
            let order_clause = (case ds_default_order_by d of
                                  None \<Rightarrow> []
                                | Some ob \<Rightarrow> if ob \<noteq> [] then '' ORDER BY '' @ ob else [])
            in Inr (''SELECT * FROM '' @ ds_table d @ where_clause @ order_clause
                    @ '' LIMIT '' @ str_int limit @ '';''))"

subsection \<open>Visualization\<close>

text \<open>
  The \<^verbatim>\<open>while alias in existing_aliases\<close> loop of \<^verbatim>\<open>set_visualization\<close>.
  It ends because only finitely many candidates are taken.
\<close>

lemma alias_candidates_finite: "finite {k. b @ ''_'' @ str_nat k \<in> set ex}"
proof -
  have "inj (\<lambda>k. b @ ''_'' @ str_nat k)"
    by (rule injI) (simp add: str_nat_inj)
  then have "finite ((\<lambda>k. b @ ''_'' @ str_nat k) -` set ex)"
    by (intro finite_vimageI) simp
  then show ?thesis
    by (simp add: vimage_def)
qed

lemma alias_candidates_step:
  assumes "finite {k. P k}"
  shows "card {k. Suc c \<le> k \<and> P k} + (if P c then 1 else 0) = card {k. c \<le> k \<and> P k}"
proof (cases "P c")
  case True
  have fin: "finite {k. Suc c \<le> k \<and> P k}"
    using assms by (rule rev_finite_subset) auto
  have "{k. c \<le> k \<and> P k} = insert c {k. Suc c \<le> k \<and> P k}"
    using True by (auto simp: Suc_le_eq le_less)
  then show ?thesis
    using True fin by simp
next
  case False
  have "{k. c \<le> k \<and> P k} = {k. Suc c \<le> k \<and> P k}"
    using False by (auto simp: Suc_le_eq le_less)
  then show ?thesis
    using False by simp
qed

function alias_loop :: "string \<Rightarrow> string list \<Rightarrow> string \<Rightarrow> nat \<Rightarrow> string" where
  "alias_loop alias_base existing_aliases alias counter =
     (if alias \<in> set existing_aliases
      then alias_loop alias_base existing_aliases (alias_base @ ''_'' @ str_nat counter) (counter + 1)
      else alias)"
  by pat_completeness auto
termination
proof (relation "measure (\<lambda>(b, ex, a, c).
         (if a \<in> set ex then 1 else 0) + card {k. c \<le> k \<and> b @ ''_'' @ str_nat k \<in> set ex})")
  show "wf (measure (\<lambda>(b, ex, a, c).
         (if a \<in> set ex then 1 else 0) + card {k. c \<le> k \<and> b @ ''_'' @ str_nat k \<in> set ex}))"
    by simp
next
  fix alias_base :: string and existing_aliases :: "string list" and a :: string and counter :: nat
  assume "a \<in> set existing_aliases"
  then show "((alias_base, existing_aliases, alias_base @ ''_'' @ str_nat counter, counter + 1),
              (alias_base, existing_aliases, a, counter))
             \<in> measure (\<lambda>(b, ex, a, c).
                 (if a \<in> set ex then 1 else 0) + card {k. c \<le> k \<and> b @ ''_'' @ str_nat k \<in> set ex})"
    using alias_candidates_step [where P = "\<lambda>k. alias_base @ ''_'' @ str_nat k \<in> set existing_aliases"
        and c = counter, OF alias_candidates_finite]
    by (simp split: if_splits)
qed

declare alias_loop.simps [simp del]

definition allowed_aggs :: "string list" where
  "allowed_aggs = [''sum'', ''avg'', ''count'', ''min'', ''max'']"

text \<open>
  The \<^verbatim>\<open>for raw in y_measures\<close> loop, with its two accumulators
  \<^verbatim>\<open>measure_specs\<close> and \<^verbatim>\<open>existing_aliases\<close> (a set in the source, kept as
  a list here).
\<close>

definition split_measure :: "string \<Rightarrow> string \<times> string" where
  "split_measure raw =
     (if CHR '':'' \<in> set raw
      then (strip (fst (split1 CHR '':'' raw)), strip (snd (split1 CHR '':'' raw)))
      else (''sum'', strip raw))"

fun measure_loop ::
  "Dataset \<Rightarrow> string list \<Rightarrow> MeasureSpec list \<Rightarrow> string list \<Rightarrow> exn + MeasureSpec list" where
  "measure_loop d [] specs existing_aliases = Inr specs"
| "measure_loop d (raw # raws) specs existing_aliases =
     (let agg = fst (split_measure raw); col = snd (split_measure raw) in
      if col \<notin> set (map col_name (ds_columns d))
      then Inl (ValueError (''Column '' @ quoted col @ '' is not available on dataset ''
                             @ quoted (ds_name d) @ ''.''))
      else
        let agg_lower = lower agg in
        if agg_lower \<notin> set allowed_aggs
        then Inl (ValueError ''Aggregation must be one of 'sum', 'avg', 'count', 'min', or 'max'.'')
        else
          let alias_base = agg_lower @ ''_'' @ col;
              alias = alias_loop alias_base existing_aliases alias_base 2
          in measure_loop d raws
               (specs @ [\<lparr>ms_column = col, ms_aggregation = upper agg_lower, ms_alias = alias\<rparr>])
               (alias # existing_aliases))"

text \<open>\<^verbatim>\<open>dict.fromkeys(keys)\<close>: every key inserted in turn, with the value None.\<close>

definition fromkeys :: "'a list \<Rightarrow> ('a \<times> unit) list" where
  "fromkeys ks = foldl (\<lambda>d k. AList.update k () d) [] ks"

definition set_visualization ::
  "string \<Rightarrow> string list \<Rightarrow> string list \<Rightarrow> string list option \<Rightarrow> (string \<times> string) list option
   \<Rightarrow> 'f AgentState \<Rightarrow> (exn + VisualizationSpec) \<times> 'f AgentState" where
  "set_visualization chart_type x_fields y_measures breakdowns options s =
     (case require_dataset s of
        Inl e \<Rightarrow> (Inl e, s)
      | Inr d \<Rightarrow>
          if x_fields = []
          then (Inl (ValueError ''At least one dimension must be provided for the X axis.''), s)
          else if y_measures = []
          then (Inl (ValueError ''Specify at least one measure for the Y axis (e.g. 'sum:monthly_spend').''), s)
          else
            let invalid_dims = filter (\<lambda>c. c \<notin> set (map col_name (ds_columns d))) x_fields in
            if invalid_dims \<noteq> []
            then (Inl (ValueError (''Unknown dimension columns: '' @ join '', '' invalid_dims
                                    @ '' on dataset '' @ quoted (ds_name d) @ ''.'')), s)
            else
              let bs = (case breakdowns of None \<Rightarrow> [] | Some b \<Rightarrow> b);
                  invalid_breakdowns = filter (\<lambda>c. c \<notin> set (map col_name (ds_columns d))) bs
              in
              if invalid_breakdowns \<noteq> []
              then (Inl (ValueError (''Unknown breakdown columns: '' @ join '', '' invalid_breakdowns
                                      @ '' on dataset '' @ quoted (ds_name d) @ ''.'')), s)
              else
                (case measure_loop d y_measures [] [] of
                   Inl e \<Rightarrow> (Inl e, s)
                 | Inr specs \<Rightarrow>
                     let merged_dimensions = map fst (fromkeys (x_fields @ bs));
                         spec = \<lparr>viz_chart_type = chart_type, viz_x_fields = x_fields,
                                 viz_y_measures = map ms_alias specs, viz_breakdowns = bs,
                                 viz_options = (case options of
                                                  None \<Rightarrow> None
                                                | Some os \<Rightarrow> if os \<noteq> [] then Some os else None)\<rparr>
                     in (Inr spec, s\<lparr>visualization := Some spec, dimensions := merged_dimensions,
                                     measure_specs := specs\<rparr>)))"

text \<open>\<^verbatim>\<open>describe_state\<close>: the snapshot with the statement at the default limit of 100.\<close>

record 'f StateDescription =
  sd_dataset :: string
  sd_filters :: "(string \<times> 'f FilterValue) list"
  sd_visualization :: "VisualizationSpec option"
  sd_dimensions :: "string list"
  sd_metrics :: "MeasureSpec list"
  sd_sql :: string

definition describe_state :: "('f \<Rightarrow> string) \<Rightarrow> 'f AgentState \<Rightarrow> exn + 'f StateDescription" where
  "describe_state str_float s =
     (case require_dataset s of
        Inl e \<Rightarrow> Inl e
      | Inr d \<Rightarrow>
          (case build_sql_query str_float 100 s of
             Inl e \<Rightarrow> Inl e
           | Inr sql \<Rightarrow>
               Inr \<lparr>sd_dataset = ds_name d, sd_filters = filters s,
                    sd_visualization = visualization s, sd_dimensions = dimensions s,
                    sd_metrics = measure_specs s, sd_sql = sql\<rparr>))"

section \<open>Parsers of the chat session\<close>

text \<open>
  What the session takes from outside: Python's \<^verbatim>\<open>int\<close> and \<^verbatim>\<open>float\<close> on a
  string (\<^const>\<open>None\<close> where they raise ValueError), the rendering of a float, the
  query backend (\<^const>\<open>None\<close> where it raises) and the chart renderer.
\<close>

datatype render_result = Rendered "string option" | RenderFailed string

record ('f, 'r) Env =
  env_int :: "string \<Rightarrow> int option"
  env_float :: "string \<Rightarrow> 'f option"
  env_str_float :: "'f \<Rightarrow> string"
  env_execute_query :: "string \<Rightarrow> 'r option"
  env_render_chart :: "'r \<Rightarrow> string \<Rightarrow> string list \<Rightarrow> string list \<Rightarrow> MeasureSpec list \<Rightarrow> render_result"

subsection \<open>Character classes and regular-expression pieces\<close>

definition is_lower_alpha :: "char \<Rightarrow> bool" where
  "is_lower_alpha c = (CHR ''a'' \<le> c \<and> c \<le> CHR ''z'')"

definition is_upper_alpha :: "char \<Rightarrow> bool" where
  "is_upper_alpha c = (CHR ''A'' \<le> c \<and> c \<le> CHR ''Z'')"

definition is_digit :: "char \<Rightarrow> bool" where
  "is_digit c = (CHR ''0'' \<le> c \<and> c \<le> CHR ''9'')"

text \<open>\<^verbatim>\<open>[a-z_]\<close>, \<^verbatim>\<open>[a-zA-Z_]\<close>, \<^verbatim>\<open>\w\<close> and \<^verbatim>\<open>[a-z0-9_]\<close>.\<close>

definition is_key_char :: "char \<Rightarrow> bool" where
  "is_key_char c = (is_lower_alpha c \<or> c = CHR ''_'')"

definition is_ident_start :: "char \<Rightarrow> bool" where
  "is_ident_start c = (is_lower_alpha c \<or> is_upper_alpha c \<or> c = CHR ''_'')"

definition is_word_char :: "char \<Rightarrow> bool" where
  "is_word_char c = (is_lower_alpha c \<or> is_upper_alpha c \<or> is_digit c \<or> c = CHR ''_'')"

definition is_name_char :: "char \<Rightarrow> bool" where
  "is_name_char c = (is_lower_alpha c \<or> is_digit c \<or> c = CHR ''_'')"

text \<open>
  \<^verbatim>\<open>\s+\<close>: at least one blank, then all that follow. \<^verbatim>\<open>[^\s]+\<close>: the longest
  run without a blank, not empty. A literal word, matched ignoring case. In the two
  patterns of the source every piece is followed by one that cannot start with a
  character of the piece, so the longest run is the only way to match.
\<close>

definition match_spaces1 :: "string \<Rightarrow> string option" where
  "match_spaces1 s =
     (case s of
        [] \<Rightarrow> None
      | c # cs \<Rightarrow> if isspace c then Some (dropWhile isspace cs) else None)"

definition match_token :: "string \<Rightarrow> (string \<times> string) option" where
  "match_token s =
     (let t = takeWhile (\<lambda>c. \<not> isspace c) s in
      if t = [] then None else Some (t, dropWhile (\<lambda>c. \<not> isspace c) s))"

definition match_keyword :: "string \<Rightarrow> string \<Rightarrow> string option" where
  "match_keyword kw s =
     (if length kw \<le> length s \<and> lower (take (length kw) s) = kw
      then Some (drop (length kw) s) else None)"

subsection \<open>Filter expressions\<close>

text \<open>
  The pattern
  \<^verbatim>\<open>(?P<column>[a-zA-Z_][\w]*)\s+between\s+(?P<start>[^\s]+)\s+and\s+(?P<end>[^\s]+)\<close>
  at the head of a text, and its leftmost match (\<^verbatim>\<open>search\<close>).
\<close>

definition between_match_here :: "string \<Rightarrow> (string \<times> string \<times> string) option" where
  "between_match_here s =
     (case s of
        [] \<Rightarrow> None
      | c # cs \<Rightarrow>
          if \<not> is_ident_start c then None
          else
            (case match_spaces1 (dropWhile is_word_char cs) of
               None \<Rightarrow> None
             | Some r1 \<Rightarrow>
            (case match_keyword ''between'' r1 of
               None \<Rightarrow> None
             | Some r2 \<Rightarrow>
            (case match_spaces1 r2 of
               None \<Rightarrow> None
             | Some r3 \<Rightarrow>
            (case match_token r3 of
               None \<Rightarrow> None
             | Some (start, r4) \<Rightarrow>
            (case match_spaces1 r4 of
               None \<Rightarrow> None
             | Some r5 \<Rightarrow>
            (case match_keyword ''and'' r5 of
               None \<Rightarrow> None
             | Some r6 \<Rightarrow>
            (case match_spaces1 r6 of
               None \<Rightarrow> None
             | Some r7 \<Rightarrow>
            (case match_token r7 of
               None \<Rightarrow> None
             | Some (end_value, r8) \<Rightarrow>
                 Some (c # takeWhile is_word_char cs, start, end_value))))))))))"

fun between_search :: "string \<Rightarrow> (string \<times> string \<times> string) option" where
  "between_search [] = None"
| "between_search (c # cs) =
     (case between_match_here (c # cs) of
        Some m \<Rightarrow> Some m
      | None \<Rightarrow> between_search cs)"

text \<open>
  \<^verbatim>\<open>_cast_value\<close> on a string and on a tuple of strings. Only a column of the
  dataset with type \<^verbatim>\<open>numeric\<close> is coerced.
\<close>

definition cast_str :: "('f, 'r) Env \<Rightarrow> Dataset \<Rightarrow> string \<Rightarrow> string \<Rightarrow> 'f atom" where
  "cast_str env d column_name v =
     (case find (\<lambda>col. col_name col = column_name) (ds_columns d) of
        None \<Rightarrow> PStr v
      | Some col \<Rightarrow>
          if col_type col = ''numeric'' then
            (if CHR ''.'' \<in> set v
             then (case env_float env v of Some x \<Rightarrow> PFloat x | None \<Rightarrow> PStr v)
             else (case env_int env v of Some i \<Rightarrow> PInt i | None \<Rightarrow> PStr v))
          else PStr v)"

definition cast_tuple :: "('f, 'r) Env \<Rightarrow> Dataset \<Rightarrow> string \<Rightarrow> string list \<Rightarrow> 'f atom list" where
  "cast_tuple env d column_name vs =
     (case find (\<lambda>col. col_name col = column_name) (ds_columns d) of
        None \<Rightarrow> map PStr vs
      | Some col \<Rightarrow> map (cast_str env d column_name) vs)"

text \<open>The part of \<^verbatim>\<open>_parse_filter\<close> after the split at \<^verbatim>\<open>=\<close> or \<^verbatim>\<open>:\<close>.\<close>

definition parse_values ::
  "('f, 'r) Env \<Rightarrow> Dataset \<Rightarrow> string \<Rightarrow> string \<Rightarrow> (string \<times> 'f FilterValue) option" where
  "parse_values env d col raw_value =
     (let vals = comma_items raw_value in
      if vals = [] then None
      else if length vals = 1 then Some (col, Scalar (cast_str env d col (vals ! 0)))
      else Some (col, Tuple (map (cast_str env d col) vals)))"

definition parse_filter ::
  "('f, 'r) Env \<Rightarrow> 'f AgentState \<Rightarrow> string \<Rightarrow> (string \<times> 'f FilterValue) option" where
  "parse_filter env s text =
     (case dataset s of
        None \<Rightarrow> None
      | Some d \<Rightarrow>
          (case between_search text of
             Some (col, start, end_value) \<Rightarrow>
               Some (col, Tuple (cast_tuple env d col [start, end_value]))
           | None \<Rightarrow>
               if CHR ''='' \<in> set text
               then parse_values env d (strip (fst (split1 CHR ''='' text)))
                                       (strip (snd (split1 CHR ''='' text)))
               else if CHR '':'' \<in> set text
               then parse_values env d (strip (fst (split1 CHR '':'' text)))
                                       (strip (snd (split1 CHR '':'' text)))
               else None))"

subsection \<open>Visualization directives\<close>

text \<open>
  The pattern \<^verbatim>\<open>([a-z_]+)\s*=\s*([^\s]+)\<close> at the head of a text: the pair it
  captures and the text after the match.
\<close>

definition kv_match_here :: "string \<Rightarrow> ((string \<times> string) \<times> string) option" where
  "kv_match_here s =
     (let k = takeWhile is_key_char s in
      if k = [] then None
      else
        (case dropWhile isspace (dropWhile is_key_char s) of
           [] \<Rightarrow> None
         | c # r1 \<Rightarrow>
             if c \<noteq> CHR ''='' then None
             else
               (case match_token (dropWhile isspace r1) of
                  None \<Rightarrow> None
                | Some (v, r2) \<Rightarrow> Some ((k, v), r2))))"

lemma match_token_shorter: "match_token s = Some (t, r) \<Longrightarrow> length r \<le> length s"
  by (auto simp: match_token_def Let_def length_dropWhile_le split: if_splits)

lemma kv_match_here_shorter:
  assumes "kv_match_here s = Some (kv, r)"
  shows "length r < length s"
proof -
  from assms obtain c r1 v where k: "takeWhile is_key_char s \<noteq> []"
    and d: "dropWhile isspace (dropWhile is_key_char s) = c # r1"
    and m: "match_token (dropWhile isspace r1) = Some (v, r)"
    by (auto simp: kv_match_here_def Let_def split: if_splits list.splits option.splits)
  have "length r \<le> length (dropWhile isspace r1)"
    using m by (rule match_token_shorter)
  also have "\<dots> \<le> length r1"
    by (rule length_dropWhile_le)
  also have "\<dots> < length (c # r1)"
    by simp
  also have "\<dots> \<le> length (dropWhile is_key_char s)"
    unfolding d [symmetric] by (rule length_dropWhile_le)
  also have "\<dots> \<le> length s"
    by (rule length_dropWhile_le)
  finally show ?thesis .
qed

text \<open>\<^verbatim>\<open>re.findall\<close>: the matches from left to right, none overlapping.\<close>

function findall_kv :: "string \<Rightarrow> (string \<times> string) list" where
  "findall_kv [] = []"
| "findall_kv (c # cs) =
     (case kv_match_here (c # cs) of
        Some (kv, r) \<Rightarrow> kv # findall_kv r
      | None \<Rightarrow> findall_kv cs)"
  by pat_completeness auto
termination
  by (relation "measure length") (auto dest: kv_match_here_shorter)

text \<open>
  A dict built from pairs in turn (\<^verbatim>\<open>{key: value for key, value in parts}\<close>), and
  \<^verbatim>\<open>a or b\<close> on optional strings: the first when it is a non-empty string.
\<close>

definition dict_of :: "('k \<times> 'v) list \<Rightarrow> ('k \<times> 'v) list" where
  "dict_of kvs = foldl (\<lambda>d kv. AList.update (fst kv) (snd kv) d) [] kvs"

definition py_or :: "string option \<Rightarrow> string option \<Rightarrow> string option" where
  "py_or a b = (case a of None \<Rightarrow> b | Some v \<Rightarrow> if v \<noteq> [] then Some v else b)"

definition falsy :: "string option \<Rightarrow> bool" where
  "falsy a = (case a of None \<Rightarrow> True | Some v \<Rightarrow> v = [])"

record VizPayload =
  pl_chart_type :: string
  pl_x_fields :: "string list"
  pl_y_measures :: "string list"
  pl_breakdowns :: "string list option"
  pl_options :: "(string \<times> string) list option"

definition chart_types :: "string list" where
  "chart_types = [''bar'', ''line'', ''pie'', ''heatmap'', ''custom'']"

definition recognised_keys :: "string list" where
  "recognised_keys = [''chart'', ''type'', ''x'', ''dimensions'', ''y'', ''metrics'',
                      ''breakdowns'', ''group_by'']"

definition parse_visualisation :: "string \<Rightarrow> VizPayload option" where
  "parse_visualisation text =
     (let parts = findall_kv (lower text) in
      if parts = [] then None
      else
        let parameters = dict_of parts;
            chart_type = py_or (map_of parameters ''chart'') (map_of parameters ''type'');
            x_value = py_or (map_of parameters ''x'') (map_of parameters ''dimensions'');
            y_value = py_or (map_of parameters ''y'') (map_of parameters ''metrics'')
        in
        if falsy chart_type \<or> falsy x_value \<or> falsy y_value then None
        else if the chart_type \<notin> set chart_types then None
        else
          let breakdown_value = py_or (map_of parameters ''breakdowns'') (map_of parameters ''group_by'');
              breakdowns = (if falsy breakdown_value then [] else comma_items (the breakdown_value));
              options = filter (\<lambda>kv. fst kv \<notin> set recognised_keys) parameters
          in Some \<lparr>pl_chart_type = the chart_type,
                   pl_x_fields = comma_items (the x_value),
                   pl_y_measures = comma_items (the y_value),
                   pl_breakdowns = (if breakdowns \<noteq> [] then Some breakdowns else None),
                   pl_options = (if options \<noteq> [] then Some options else None)\<rparr>)"

subsection \<open>Dataset names\<close>

text \<open>\<^verbatim>\<open>re.split(r"[^a-z0-9_]+", s)\<close>: the runs of name characters between separators.\<close>

fun re_split_names :: "string \<Rightarrow> string list" where
  "re_split_names [] = [[]]"
| "re_split_names (c # cs) =
     (if is_name_char c
      then (case re_split_names cs of [] \<Rightarrow> [[c]] | w # ws \<Rightarrow> (c # w) # ws)
      else (case cs of
              [] \<Rightarrow> [[], []]
            | c' # cs' \<Rightarrow> if is_name_char c' then [] # re_split_names cs else re_split_names cs))"

definition match_dataset :: "string \<Rightarrow> string option" where
  "match_dataset text =
     (let options = dict_of (map (\<lambda>n. (lower n, n)) list_datasets);
          ws = re_split_names (lower text)
      in case find (\<lambda>w. w \<in> set (map fst options)) ws of
           Some w \<Rightarrow> map_of options w
         | None \<Rightarrow> if lower text \<in> set (map fst options) then map_of options (lower text) else None)"

section \<open>Dialogue state machine\<close>

datatype ConversationStage = GREETING | DATASET | FILTERS | VISUALISATION | SUMMARY | ADJUST

record 'f ConversationContext =
  agent :: "'f AgentState"
  stage :: ConversationStage
  chart_path :: "string option"

definition new_context :: "'f ConversationContext" where
  "new_context = \<lparr>agent = init_state, stage = GREETING, chart_path = None\<rparr>"

text \<open>
  The replies of the session. Each constructor stands for one message of the source and
  carries the data the message is composed from; the wording itself is not modelled.
  \<^item> \<open>Retry\<close>: "I didn't catch that. Please type something."
  \<^item> \<open>Goodbye\<close>, \<open>Help\<close>: the replies to quit/exit and help/?
  \<^item> \<open>Greeting\<close>: the text of \<^verbatim>\<open>start()\<close>
  \<^item> \<open>BeginHint\<close>: "Let's begin by choosing a dataset."
  \<^item> \<open>DatasetNotFound\<close>: "I couldn't find that dataset. ..."
  \<^item> \<open>DatasetSelected\<close>: "Great! We'll explore ..."
  \<^item> \<open>VisualisationPrompt\<close>: "Great, let's design a chart. ..."
  \<^item> \<open>FilterHint\<close>: "I didn't understand that filter. Use ..."
  \<^item> \<open>ErrorText\<close>: \<^verbatim>\<open>str(exc)\<close> of a caught ValueError
  \<^item> \<open>FilterAdded\<close>: "Added filter on ... Current filters: ..."
  \<^item> \<open>VisualisationHint\<close>: "Let's describe the chart. Use ..."
  \<^item> \<open>SummaryText\<close>: "Here's the summary of your exploration: ..."
  \<^item> \<open>FilterTweakHint\<close>: "I couldn't understand that filter tweak. Use ..."
  \<^item> \<open>FilterAddedSummary\<close>: "Added filter on ... Regenerating summary" and the summary
  \<^item> \<open>CurrentFilters\<close>: "Current filters: ..."
  \<^item> \<open>NoChartYet\<close>: "No chart has been generated yet. Try `refresh` first."
  \<^item> \<open>LatestChart\<close>: "The latest chart is saved at: ..."
  \<^item> \<open>AdjustHelp\<close>: "You can tweak the chart with commands like ..."
\<close>

datatype chart_info = ChartSaved string | RenderWarning string | NoChart

datatype ('f, 'r) response =
    Retry
  | Goodbye
  | Help
  | Greeting
  | BeginHint
  | DatasetNotFound
  | DatasetSelected string
  | VisualisationPrompt
  | FilterHint
  | ErrorText string
  | FilterAdded string "(string \<times> 'f FilterValue) list"
  | VisualisationHint
  | SummaryText "'f StateDescription" 'r chart_info
  | FilterTweakHint
  | FilterAddedSummary string "'f StateDescription" 'r chart_info
  | CurrentFilters "(string \<times> 'f FilterValue) list"
  | NoChartYet
  | LatestChart string
  | AdjustHelp

text \<open>
  A turn ends with a reply or with an exception that nothing caught; either way the
  context is returned as the turn left it.
\<close>

datatype ('f, 'r) outcome = Reply "('f, 'r) response" | Raised exn

definition start :: "'f ConversationContext \<Rightarrow> ('f, 'r) outcome \<times> 'f ConversationContext" where
  "start c = (Reply Greeting, c\<lparr>stage := DATASET\<rparr>)"

text \<open>
  \<^verbatim>\<open>_summarise_results\<close>: the snapshot, the query, the rendering (whose exceptions
  are caught), then the chart path and the stage are set.
\<close>

definition summarise_results ::
  "('f, 'r) Env \<Rightarrow> 'f ConversationContext
   \<Rightarrow> (exn + 'f StateDescription \<times> 'r \<times> chart_info) \<times> 'f ConversationContext" where
  "summarise_results env c =
     (case describe_state (env_str_float env) (agent c) of
        Inl e \<Rightarrow> (Inl e, c)
      | Inr summary \<Rightarrow>
          (case env_execute_query env (sd_sql summary) of
             None \<Rightarrow> (Inl BackendError, c)
           | Some rows \<Rightarrow>
               let rendered =
                     env_render_chart env rows
                       (case sd_visualization summary of None \<Rightarrow> ''bar'' | Some v \<Rightarrow> viz_chart_type v)
                       (case sd_visualization summary of None \<Rightarrow> [] | Some v \<Rightarrow> viz_x_fields v)
                       (case sd_visualization summary of None \<Rightarrow> [] | Some v \<Rightarrow> viz_breakdowns v)
                       (measure_specs (agent c));
                   info = (case rendered of
                             RenderFailed msg \<Rightarrow> if msg \<noteq> [] then RenderWarning msg else NoChart
                           | Rendered None \<Rightarrow> NoChart
                           | Rendered (Some p) \<Rightarrow> ChartSaved p);
                   path = (case rendered of
                             RenderFailed msg \<Rightarrow> None
                           | Rendered p \<Rightarrow> p)
               in (Inr (summary, rows, info), c\<lparr>chart_path := path, stage := ADJUST\<rparr>)))"

text \<open>
  \<^verbatim>\<open>except ValueError as exc: return str(exc)\<close>: a ValueError becomes a reply, any other
  exception leaves the turn. And \<^verbatim>\<open>return ... + self._summarise_results()\<close>: the
  summary becomes the reply, an exception of the summary step leaves the turn.
\<close>

definition except_ValueError :: "exn \<Rightarrow> ('f, 'r) outcome" where
  "except_ValueError e = (case e of ValueError msg \<Rightarrow> Reply (ErrorText msg) | _ \<Rightarrow> Raised e)"

definition reply_summary ::
  "('f StateDescription \<Rightarrow> 'r \<Rightarrow> chart_info \<Rightarrow> ('f, 'r) response)
   \<Rightarrow> (exn + 'f StateDescription \<times> 'r \<times> chart_info) \<times> 'f ConversationContext
   \<Rightarrow> ('f, 'r) outcome \<times> 'f ConversationContext" where
  "reply_summary f x =
     (case fst x of
        Inl e \<Rightarrow> (Raised e, snd x)
      | Inr (summary, rows, info) \<Rightarrow> (Reply (f summary rows info), snd x))"

definition handle_dataset_selection ::
  "'f ConversationContext \<Rightarrow> string \<Rightarrow> ('f, 'r) outcome \<times> 'f ConversationContext" where
  "handle_dataset_selection c text =
     (case match_dataset text of
        None \<Rightarrow> (Reply DatasetNotFound, c)
      | Some dataset_name \<Rightarrow>
          (case select_dataset dataset_name (agent c) of
             (Inl e, a) \<Rightarrow> (Raised e, c\<lparr>agent := a\<rparr>)
           | (Inr d, a) \<Rightarrow> (Reply (DatasetSelected (ds_name d)), c\<lparr>agent := a, stage := FILTERS\<rparr>)))"

definition handle_visualisation ::
  "('f, 'r) Env \<Rightarrow> 'f ConversationContext \<Rightarrow> string \<Rightarrow> ('f, 'r) outcome \<times> 'f ConversationContext" where
  "handle_visualisation env c text =
     (case parse_visualisation text of
        None \<Rightarrow> (Reply VisualisationHint, c)
      | Some p \<Rightarrow>
          (case set_visualization (pl_chart_type p) (pl_x_fields p) (pl_y_measures p)
                  (pl_breakdowns p) (pl_options p) (agent c) of
             (Inl e, a) \<Rightarrow> (except_ValueError e, c\<lparr>agent := a\<rparr>)
           | (Inr spec, a) \<Rightarrow>
               reply_summary SummaryText (summarise_results env (c\<lparr>agent := a, stage := SUMMARY\<rparr>))))"

definition handle_filtering ::
  "('f, 'r) Env \<Rightarrow> 'f ConversationContext \<Rightarrow> string \<Rightarrow> ('f, 'r) outcome \<times> 'f ConversationContext" where
  "handle_filtering env c text =
     (if lower text \<in> set [''done'', ''next'', ''visual'']
      then (Reply VisualisationPrompt, c\<lparr>stage := VISUALISATION\<rparr>)
      else
        (case parse_filter env (agent c) text of
           None \<Rightarrow> (Reply FilterHint, c)
         | Some (col, v) \<Rightarrow>
             (case add_filter col v (agent c) of
                (Inl e, a) \<Rightarrow> (except_ValueError e, c\<lparr>agent := a\<rparr>)
              | (Inr u, a) \<Rightarrow> (Reply (FilterAdded col (filters a)), c\<lparr>agent := a\<rparr>))))"

definition viz_tokens :: "string list" where
  "viz_tokens = [''chart='', ''x='', ''y='', ''metrics='', ''dimensions='', ''breakdowns='']"

definition handle_adjustment ::
  "('f, 'r) Env \<Rightarrow> 'f ConversationContext \<Rightarrow> string \<Rightarrow> ('f, 'r) outcome \<times> 'f ConversationContext" where
  "handle_adjustment env c text =
     (let lowered = lower text in
      if lowered \<in> set [''again'', ''restart'', ''reset'', ''new''] then start new_context
      else if lowered \<in> set [''refresh'', ''show'', ''show chart'', ''render'', ''update''] then
        reply_summary SummaryText (summarise_results env c)
      else if list_ex (\<lambda>token. contains lowered token) viz_tokens then
        handle_visualisation env (c\<lparr>stage := VISUALISATION\<rparr>) text
      else if startswith lowered ''filter '' then
        (case parse_filter env (agent c) (snd (split1 CHR '' '' text)) of
           None \<Rightarrow> (Reply FilterTweakHint, c)
         | Some (col, v) \<Rightarrow>
             (case add_filter col v (agent c) of
                (Inl e, a) \<Rightarrow> (except_ValueError e, c\<lparr>agent := a\<rparr>)
              | (Inr u, a) \<Rightarrow>
                  reply_summary (FilterAddedSummary col) (summarise_results env (c\<lparr>agent := a\<rparr>))))
      else if lowered = ''filters'' then (Reply (CurrentFilters (filters (agent c))), c)
      else if lowered = ''chart'' then
        (case chart_path c of
           None \<Rightarrow> (Reply NoChartYet, c)
         | Some p \<Rightarrow> (Reply (LatestChart p), c))
      else (Reply AdjustHelp, c))"

definition handle_summary_follow_up ::
  "('f, 'r) Env \<Rightarrow> 'f ConversationContext \<Rightarrow> string \<Rightarrow> ('f, 'r) outcome \<times> 'f ConversationContext" where
  "handle_summary_follow_up env c text =
     (if lower text \<in> set [''again'', ''restart'', ''reset'', ''new''] then start new_context
      else handle_adjustment env c text)"

definition handle_input ::
  "('f, 'r) Env \<Rightarrow> 'f ConversationContext \<Rightarrow> string \<Rightarrow> ('f, 'r) outcome \<times> 'f ConversationContext" where
  "handle_input env c message =
     (let text = strip message in
      if text = [] then (Reply Retry, c)
      else
        let lowered = lower text in
        if lowered \<in> set [''quit'', ''exit''] then (Reply Goodbye, c)
        else if lowered \<in> set [''help'', ''?''] then (Reply Help, c)
        else if lowered \<in> set [''reset'', ''restart''] then start new_context
        else
          (case stage c of
             DATASET \<Rightarrow> handle_dataset_selection c text
           | FILTERS \<Rightarrow> handle_filtering env c text
           | VISUALISATION \<Rightarrow> handle_visualisation env c text
           | SUMMARY \<Rightarrow> handle_summary_follow_up env c text
           | ADJUST \<Rightarrow> handle_adjustment env c text
           | GREETING \<Rightarrow> (Reply BeginHint, c)))"

text \<open>A conversation: the turns in order, stopped by the first uncaught exception.\<close>

fun run_turns ::
  "('f, 'r) Env \<Rightarrow> 'f ConversationContext \<Rightarrow> string list \<Rightarrow> 'f ConversationContext option" where
  "run_turns env c [] = Some c"
| "run_turns env c (m # ms) =
     (case handle_input env c m of
        (Reply r, c') \<Rightarrow> run_turns env c' ms
      | (Raised e, c') \<Rightarrow> None)"

text \<open>
  Collaborators for the worked examples: nothing parses as a number, the backend returns
  no rows and the renderer has nothing to draw.
\<close>

definition example_env :: "(unit, unit list) Env" where
  "example_env = \<lparr>env_int = (\<lambda>v. None), env_float = (\<lambda>v. None), env_str_float = (\<lambda>x. []),
     env_execute_query = (\<lambda>sql. Some []),
     env_render_chart = (\<lambda>rows ct xs bs ms. Rendered None)\<rparr>"

section \<open>Properties of the session model\<close>

subsection \<open>The compiled statement\<close>

lemma str_int_100: "str_int 100 = ''100''"
  by code_simp

text \<open>
  C2. For the session state with dataset subscribers, the filters join_date (the range
  2025-10-01 to 2025-11-01) and region (India) in that order, the dimensions region and
  plan_type and the single measure SUM(monthly_spend) AS sum_monthly_spend, the statement
  built with the default limit of 100 is exactly the one of the specification, whatever
  the visualization is.
\<close>

theorem build_sql_query_subscribers:
  "build_sql_query str_float 100
     \<lparr>dataset = Some subscribers,
      filters = [(''join_date'', Tuple [PStr ''2025-10-01'', PStr ''2025-11-01'']),
                 (''region'', Scalar (PStr ''India''))],
      visualization = v, dimensions = [''region'', ''plan_type''],
      measure_specs = [\<lparr>ms_column = ''monthly_spend'', ms_aggregation = ''SUM'',
                        ms_alias = ''sum_monthly_spend''\<rparr>]\<rparr>
   = Inr ''SELECT region, plan_type, SUM(monthly_spend) AS sum_monthly_spend FROM subscribers WHERE join_date BETWEEN '2025-10-01' AND '2025-11-01' AND region = 'India' GROUP BY region, plan_type ORDER BY region, plan_type LIMIT 100;''"
  by (simp add: build_sql_query_def require_dataset_def build_where_clause_def select_part_def
      subscribers_def quoted_def str_int_100 Let_def)

subsection \<open>Filters\<close>

text \<open>The state of the demo of the source after its first step.\<close>

definition demo_state :: "unit AgentState" where
  "demo_state = snd (select_dataset ''subscribers'' init_state)"

lemma demo_state_dataset: "dataset demo_state = Some subscribers"
  by (simp add: demo_state_def select_dataset_def get_dataset_def DATASETS_def)

lemma subscribers_columns:
  "map col_name (ds_columns subscribers)
   = [''user_id'', ''region'', ''plan_type'', ''join_date'', ''status'', ''monthly_spend'']"
  by (simp add: subscribers_def mk_column_def)

text \<open>
  C5. In a session whose active dataset is \<open>d\<close>: for a column of \<open>d\<close>, add_filter
  succeeds, the filters then map the column to the value, and a later call for the same
  column overwrites it; for any other column name add_filter raises the ValueError that
  names the column and the dataset, and the state is as it was.
\<close>

theorem add_filter_known_or_unknown:
  "dataset s = Some d \<Longrightarrow>
   (c \<in> set (map col_name (ds_columns d)) \<longrightarrow>
      add_filter c v s = (Inr (), s\<lparr>filters := AList.update c v (filters s)\<rparr>)
      \<and> map_of (filters (snd (add_filter c v s))) c = Some v
      \<and> map_of (filters (snd (add_filter c v' (snd (add_filter c v s))))) c = Some v')
   \<and> (c \<notin> set (map col_name (ds_columns d)) \<longrightarrow>
      add_filter c v s
      = (Inl (ValueError (''Column '' @ quoted c @ '' is not available on dataset ''
                           @ quoted (ds_name d) @ ''.'')), s))"
  by (simp add: add_filter_def require_dataset_def update_conv)

theorem add_filter_known_or_unknown_witness:
  "map_of (filters (snd (add_filter ''region'' (Scalar (PStr ''Europe''))
             (snd (add_filter ''region'' (Scalar (PStr ''India'')) demo_state))))) ''region''
   = Some (Scalar (PStr ''Europe''))
   \<and> add_filter ''colour'' (Scalar (PStr ''red'')) demo_state
     = (Inl (ValueError (''Column '' @ quoted ''colour'' @ '' is not available on dataset ''
                          @ quoted (ds_name subscribers) @ ''.'')), demo_state)"
proof -
  have known: "''region'' \<in> set (map col_name (ds_columns subscribers))"
    by (simp add: subscribers_columns)
  have unknown: "''colour'' \<notin> set (map col_name (ds_columns subscribers))"
    by (simp add: subscribers_columns)
  from add_filter_known_or_unknown [OF demo_state_dataset, of "''region''"
      "Scalar (PStr ''India'')" "Scalar (PStr ''Europe'')"] known
  have "map_of (filters (snd (add_filter ''region'' (Scalar (PStr ''Europe''))
             (snd (add_filter ''region'' (Scalar (PStr ''India'')) demo_state))))) ''region''
        = Some (Scalar (PStr ''Europe''))"
    by blast
  moreover from add_filter_known_or_unknown [OF demo_state_dataset, of "''colour''"
      "Scalar (PStr ''red'')"] unknown
  have "add_filter ''colour'' (Scalar (PStr ''red'')) demo_state
     = (Inl (ValueError (''Column '' @ quoted ''colour'' @ '' is not available on dataset ''
                          @ quoted (ds_name subscribers) @ ''.'')), demo_state)"
    by blast
  ultimately show ?thesis
    by (rule conjI)
qed

subsection \<open>Dataset selection\<close>

text \<open>
  C6. From every session state, select_dataset with a name of the catalog returns the
  dataset and leaves the state that holds it with no filters, no visualization, no
  dimensions and no measure specs; with a name the catalog does not have it raises the
  ValueError for an unknown dataset and the state is as it was.
\<close>

theorem select_dataset_known_or_unknown:
  "(map_of DATASETS n = Some d \<longrightarrow>
      select_dataset n s
      = (Inr d, \<lparr>dataset = Some d, filters = [], visualization = None, dimensions = [],
                 measure_specs = []\<rparr>))
   \<and> (map_of DATASETS n = None \<longrightarrow>
      select_dataset n s = (Inl (ValueError (''Unknown dataset '' @ quoted n @ ''.'')), s))"
  by (simp add: select_dataset_def get_dataset_def)

theorem select_dataset_known_or_unknown_witness:
  "select_dataset ''payments''
     (snd (add_filter ''region'' (Scalar (PStr ''India'')) demo_state))
   = (Inr payments, \<lparr>dataset = Some payments, filters = [], visualization = None,
                      dimensions = [], measure_specs = []\<rparr>)
   \<and> select_dataset ''invoices'' demo_state
     = (Inl (ValueError (''Unknown dataset '' @ quoted ''invoices'' @ ''.'')), demo_state)"
proof -
  have known: "map_of DATASETS ''payments'' = Some payments"
    by (simp add: DATASETS_def)
  have unknown: "map_of DATASETS ''invoices'' = None"
    by (simp add: DATASETS_def)
  from select_dataset_known_or_unknown [of "''payments''" payments] known
    select_dataset_known_or_unknown [of "''invoices''" _ demo_state] unknown
  show ?thesis
    by blast
qed

subsection \<open>Dimensions\<close>

text \<open>
  Deduplication by first occurrence, as the specification words it: every element is
  kept where it first occurs and dropped everywhere after.
\<close>

fun dedup_first :: "'a list \<Rightarrow> 'a list" where
  "dedup_first [] = []"
| "dedup_first (x # xs) = x # dedup_first (filter (\<lambda>y. y \<noteq> x) xs)"

lemma fromkeys_acc:
  "map fst (foldl (\<lambda>d k. AList.update k () d) d ks)
   = map fst d @ dedup_first (filter (\<lambda>k. k \<notin> set (map fst d)) ks)"
proof (induction ks arbitrary: d)
  case Nil
  then show ?case by simp
next
  case (Cons k ks)
  show ?case
  proof (cases "k \<in> set (map fst d)")
    case True
    then show ?thesis
      using Cons.IH [of "AList.update k () d"] by (simp add: update_keys)
  next
    case False
    have eq: "filter (\<lambda>x. x \<notin> set (map fst d @ [k])) ks
              = filter (\<lambda>y. y \<noteq> k) (filter (\<lambda>x. x \<notin> set (map fst d)) ks)"
      by (induction ks) auto
    have rhs: "dedup_first (filter (\<lambda>x. x \<notin> set (map fst d)) (k # ks))
               = k # dedup_first (filter (\<lambda>y. y \<noteq> k) (filter (\<lambda>x. x \<notin> set (map fst d)) ks))"
      using False by (simp only: filter.simps simp_thms if_True dedup_first.simps)
    have "map fst (foldl (\<lambda>d k. AList.update k () d) d (k # ks))
          = map fst (foldl (\<lambda>d k. AList.update k () d) (AList.update k () d) ks)"
      by (simp only: foldl_Cons)
    also have "\<dots> = (map fst d @ [k]) @ dedup_first (filter (\<lambda>x. x \<notin> set (map fst d @ [k])) ks)"
      using Cons.IH [of "AList.update k () d"] False by (simp only: update_keys if_False)
    also have "\<dots> = map fst d @ dedup_first (filter (\<lambda>x. x \<notin> set (map fst d)) (k # ks))"
      by (simp only: eq rhs append_assoc append_Cons append_Nil)
    finally show ?thesis .
  qed
qed

lemma fromkeys_dedup: "map fst (fromkeys ks) = dedup_first ks"
  by (simp add: fromkeys_def fromkeys_acc)

lemma set_dedup_first: "set (dedup_first xs) = set xs"
  by (induction xs rule: dedup_first.induct) auto

lemma distinct_dedup_first: "distinct (dedup_first xs)"
  by (induction xs rule: dedup_first.induct) (auto simp: set_dedup_first)

lemma set_visualization_ok:
  "set_visualization ct xs ys bs os s = (Inr spec, s') \<Longrightarrow>
   \<exists>d specs. dataset s = Some d \<and> measure_loop d ys [] [] = Inr specs \<and>
     s' = s\<lparr>visualization := Some spec,
            dimensions := map fst (fromkeys (xs @ (case bs of None \<Rightarrow> [] | Some b \<Rightarrow> b))),
            measure_specs := specs\<rparr>
     \<and> viz_y_measures spec = map ms_alias specs"
  by (auto simp: set_visualization_def require_dataset_def Let_def
      split: option.splits if_splits sum.splits)

lemma set_visualization_fail:
  "set_visualization ct xs ys bs os s = (Inl e, s') \<Longrightarrow> s' = s"
  by (auto simp: set_visualization_def require_dataset_def Let_def
      split: option.splits if_splits sum.splits)

text \<open>
  C4. After every successful set_visualization with x-fields \<open>xs\<close> and breakdowns
  \<open>bs\<close> (none given counts as the empty list), the dimensions of the session are the
  deduplication by first occurrence of \<open>xs\<close> followed by \<open>bs\<close>.
\<close>

theorem set_visualization_dimensions:
  "set_visualization ct xs ys bs os s = (Inr spec, s') \<Longrightarrow>
   dimensions s' = dedup_first (xs @ (case bs of None \<Rightarrow> [] | Some b \<Rightarrow> b))"
  by (auto dest!: set_visualization_ok simp: fromkeys_dedup)

lemma demo_visualization_dedup:
  "fst (set_visualization ''bar'' [''region'', ''plan_type''] [''sum:monthly_spend'']
          (Some [''region'']) None demo_state)
   = Inr \<lparr>viz_chart_type = ''bar'', viz_x_fields = [''region'', ''plan_type''],
          viz_y_measures = [''sum_monthly_spend''], viz_breakdowns = [''region''],
          viz_options = None\<rparr>"
  by code_simp

theorem set_visualization_dimensions_witness:
  "dimensions (snd (set_visualization ''bar'' [''region'', ''plan_type''] [''sum:monthly_spend'']
                      (Some [''region'']) None demo_state))
   = [''region'', ''plan_type'']"
proof -
  have "set_visualization ''bar'' [''region'', ''plan_type''] [''sum:monthly_spend'']
          (Some [''region'']) None demo_state
        = (Inr \<lparr>viz_chart_type = ''bar'', viz_x_fields = [''region'', ''plan_type''],
                 viz_y_measures = [''sum_monthly_spend''], viz_breakdowns = [''region''],
                 viz_options = None\<rparr>,
           snd (set_visualization ''bar'' [''region'', ''plan_type''] [''sum:monthly_spend'']
                  (Some [''region'']) None demo_state))"
    using demo_visualization_dedup by (simp add: prod_eq_iff)
  from set_visualization_dimensions [OF this] show ?thesis
    by simp
qed

subsection \<open>Aliases\<close>

lemma alias_loop_fresh: "alias_loop b ex a c \<notin> set ex"
  by (induction b ex a c rule: alias_loop.induct) (simp add: alias_loop.simps)

lemma alias_loop_default: "a \<notin> set ex \<Longrightarrow> alias_loop b ex a c = a"
  by (simp add: alias_loop.simps)

lemma alias_loop_suffix:
  "a \<in> set ex \<Longrightarrow> \<exists>k\<ge>c. alias_loop b ex a c = b @ ''_'' @ str_nat k \<and>
      (\<forall>j. c \<le> j \<and> j < k \<longrightarrow> b @ ''_'' @ str_nat j \<in> set ex)"
proof (induction b ex a c rule: alias_loop.induct)
  case (1 b ex a c)
  have unfold: "alias_loop b ex a c = alias_loop b ex (b @ ''_'' @ str_nat c) (c + 1)"
    using "1.prems" by (subst alias_loop.simps) simp
  show ?case
  proof (cases "b @ ''_'' @ str_nat c \<in> set ex")
    case False
    have "alias_loop b ex (b @ ''_'' @ str_nat c) (c + 1) = b @ ''_'' @ str_nat c"
      using False by (rule alias_loop_default)
    with unfold have "alias_loop b ex a c = b @ ''_'' @ str_nat c"
      by simp
    then show ?thesis by auto
  next
    case True
    from "1.IH" [OF "1.prems" True] obtain k where k: "c + 1 \<le> k"
      "alias_loop b ex (b @ ''_'' @ str_nat c) (c + 1) = b @ ''_'' @ str_nat k"
      "\<forall>j. c + 1 \<le> j \<and> j < k \<longrightarrow> b @ ''_'' @ str_nat j \<in> set ex"
      by blast
    have "\<forall>j. c \<le> j \<and> j < k \<longrightarrow> b @ ''_'' @ str_nat j \<in> set ex"
    proof (intro allI impI)
      fix j assume "c \<le> j \<and> j < k"
      then consider "j = c" | "c + 1 \<le> j \<and> j < k" by force
      then show "b @ ''_'' @ str_nat j \<in> set ex"
        using True k(3) by cases auto
    qed
    moreover have "alias_loop b ex a c = b @ ''_'' @ str_nat k"
      using unfold k(2) by simp
    ultimately show ?thesis
      using k(1) by (intro exI [of _ k]) simp
  qed
qed

text \<open>
  The alias rule of the specification. The default alias of a measure token is its
  aggregation in lower case, an underscore and its column. Against the aliases given
  earlier, the alias of a measure is its default when that is free; otherwise it is the
  default with the suffix \<open>_k\<close> for the first \<open>k\<close> from 2 on that is free.
\<close>

definition default_alias :: "string \<Rightarrow> string" where
  "default_alias raw = lower (fst (split_measure raw)) @ ''_'' @ snd (split_measure raw)"

definition alias_rule :: "string \<Rightarrow> string set \<Rightarrow> string \<Rightarrow> bool" where
  "alias_rule base earlier a =
     (a \<notin> earlier \<and>
      (if base \<in> earlier
       then \<exists>k\<ge>2. a = base @ ''_'' @ str_nat k \<and>
              (\<forall>j. 2 \<le> j \<and> j < k \<longrightarrow> base @ ''_'' @ str_nat j \<in> earlier)
       else a = base))"

lemma alias_loop_rule: "alias_rule b (set ex) (alias_loop b ex b 2)"
  unfolding alias_rule_def
  using alias_loop_fresh [where b = b and ex = ex and a = b and c = 2]
    alias_loop_default [where b = b and ex = ex and a = b and c = 2]
    alias_loop_suffix [where b = b and ex = ex and a = b and c = 2]
  by auto

lemma measure_loop_step:
  assumes "measure_loop d (raw # raws) specs ex = Inr out"
  shows "measure_loop d raws
           (specs @ [\<lparr>ms_column = snd (split_measure raw),
                      ms_aggregation = upper (lower (fst (split_measure raw))),
                      ms_alias = alias_loop (default_alias raw) ex (default_alias raw) 2\<rparr>])
           (alias_loop (default_alias raw) ex (default_alias raw) 2 # ex) = Inr out"
  using assms by (simp add: Let_def default_alias_def split: if_splits)

lemma measure_loop_distinct:
  "measure_loop d raws specs ex = Inr out \<Longrightarrow> set ex = set (map ms_alias specs) \<Longrightarrow>
   distinct (map ms_alias specs) \<Longrightarrow> distinct (map ms_alias out)"
proof (induction raws arbitrary: specs ex)
  case Nil
  then show ?case by simp
next
  case (Cons raw raws)
  show ?case
  proof (rule Cons.IH [OF measure_loop_step [OF Cons.prems(1)]])
    show "set (alias_loop (default_alias raw) ex (default_alias raw) 2 # ex) =
          set (map ms_alias (specs @ [\<lparr>ms_column = snd (split_measure raw),
                      ms_aggregation = upper (lower (fst (split_measure raw))),
                      ms_alias = alias_loop (default_alias raw) ex (default_alias raw) 2\<rparr>]))"
      using Cons.prems(2) by simp
    show "distinct (map ms_alias (specs @ [\<lparr>ms_column = snd (split_measure raw),
                      ms_aggregation = upper (lower (fst (split_measure raw))),
                      ms_alias = alias_loop (default_alias raw) ex (default_alias raw) 2\<rparr>]))"
      using Cons.prems(2,3)
        alias_loop_fresh [where b = "default_alias raw" and ex = ex and a = "default_alias raw" and c = 2]
      by simp
  qed
qed

lemma measure_loop_aliases:
  "measure_loop d raws specs ex = Inr out \<Longrightarrow> set ex = set (map ms_alias specs) \<Longrightarrow>
   \<exists>new. out = specs @ new \<and> length new = length raws \<and>
     (\<forall>i<length raws. alias_rule (default_alias (raws ! i))
                         (set (map ms_alias (specs @ take i new))) (ms_alias (new ! i)))"
proof (induction raws arbitrary: specs ex)
  case Nil
  then show ?case by simp
next
  case (Cons raw raws)
  define sp where "sp = \<lparr>ms_column = snd (split_measure raw),
                      ms_aggregation = upper (lower (fst (split_measure raw))),
                      ms_alias = alias_loop (default_alias raw) ex (default_alias raw) 2\<rparr>"
  have step: "measure_loop d raws (specs @ [sp]) (ms_alias sp # ex) = Inr out"
    using measure_loop_step [OF Cons.prems(1)] by (simp add: sp_def)
  have ex': "set (ms_alias sp # ex) = set (map ms_alias (specs @ [sp]))"
    using Cons.prems(2) by simp
  from Cons.IH [OF step ex'] obtain new where new: "out = (specs @ [sp]) @ new"
    "length new = length raws"
    "\<forall>i<length raws. alias_rule (default_alias (raws ! i))
        (set (map ms_alias ((specs @ [sp]) @ take i new))) (ms_alias (new ! i))"
    by blast
  have first: "alias_rule (default_alias raw) (set (map ms_alias specs)) (ms_alias sp)"
    using alias_loop_rule [of "default_alias raw" ex] Cons.prems(2) by (simp add: sp_def)
  have "\<forall>i<length (raw # raws). alias_rule (default_alias ((raw # raws) ! i))
          (set (map ms_alias (specs @ take i (sp # new)))) (ms_alias ((sp # new) ! i))"
  proof (intro allI impI)
    fix i assume i: "i < length (raw # raws)"
    show "alias_rule (default_alias ((raw # raws) ! i))
          (set (map ms_alias (specs @ take i (sp # new)))) (ms_alias ((sp # new) ! i))"
    proof (cases i)
      case 0
      with first show ?thesis by simp
    next
      case (Suc i')
      with i new(3) show ?thesis by simp
    qed
  qed
  with new(1,2) show ?case
    by (intro exI [of _ "sp # new"]) simp
qed

lemma set_visualization_distinct:
  "distinct (map ms_alias (measure_specs s)) \<Longrightarrow>
   distinct (map ms_alias (measure_specs (snd (set_visualization ct xs ys bs os s))))"
proof (cases "set_visualization ct xs ys bs os s")
  case (Pair r s')
  assume old: "distinct (map ms_alias (measure_specs s))"
  show ?thesis
  proof (cases r)
    case (Inl e)
    with Pair set_visualization_fail [of ct xs ys bs os s e s'] old show ?thesis
      by simp
  next
    case (Inr spec)
    with Pair set_visualization_ok [of ct xs ys bs os s spec s'] obtain d specs
      where "measure_loop d ys [] [] = Inr specs" "measure_specs s' = specs"
      by auto
    with measure_loop_distinct [of d ys "[]" "[]" specs] Pair show ?thesis
      by simp
  qed
qed

text \<open>
  C3. After every successful set_visualization the session holds one measure spec per
  y-measure, the visualization lists their aliases, the aliases are pairwise distinct,
  and each follows the alias rule against the aliases before it. Alias uniqueness is
  kept by every operation of the session model, whether it succeeds or raises.
\<close>

theorem set_visualization_aliases:
  "(set_visualization ct xs ys bs os s = (Inr spec, s') \<longrightarrow>
      length (measure_specs s') = length ys
      \<and> viz_y_measures spec = map ms_alias (measure_specs s')
      \<and> distinct (map ms_alias (measure_specs s'))
      \<and> (\<forall>i<length ys. alias_rule (default_alias (ys ! i))
                           (set (take i (map ms_alias (measure_specs s'))))
                           (ms_alias (measure_specs s' ! i))))
   \<and> (distinct (map ms_alias (measure_specs s)) \<longrightarrow>
      distinct (map ms_alias (measure_specs (snd (set_visualization ct xs ys bs os s))))
      \<and> distinct (map ms_alias (measure_specs (snd (select_dataset n s))))
      \<and> distinct (map ms_alias (measure_specs (snd (add_filter c v s))))
      \<and> distinct (map ms_alias (measure_specs (reset s))))"
proof (intro conjI impI)
  assume ok: "set_visualization ct xs ys bs os s = (Inr spec, s')"
  from set_visualization_ok [OF ok] obtain d where loop: "measure_loop d ys [] [] = Inr (measure_specs s')"
    and viz: "viz_y_measures spec = map ms_alias (measure_specs s')"
    by auto
  from measure_loop_aliases [OF loop] obtain new where new: "measure_specs s' = new"
    "length new = length ys"
    "\<forall>i<length ys. alias_rule (default_alias (ys ! i)) (set (map ms_alias (take i new)))
                      (ms_alias (new ! i))"
    by auto
  show "length (measure_specs s') = length ys"
    using new by simp
  show "viz_y_measures spec = map ms_alias (measure_specs s')"
    by (rule viz)
  show "distinct (map ms_alias (measure_specs s'))"
    using measure_loop_distinct [OF loop] by simp
  show "\<forall>i<length ys. alias_rule (default_alias (ys ! i))
                           (set (take i (map ms_alias (measure_specs s'))))
                           (ms_alias (measure_specs s' ! i))"
    using new by (simp add: take_map)
next
  assume "distinct (map ms_alias (measure_specs s))"
  then show "distinct (map ms_alias (measure_specs (snd (set_visualization ct xs ys bs os s))))"
    by (rule set_visualization_distinct)
next
  assume "distinct (map ms_alias (measure_specs s))"
  then show "distinct (map ms_alias (measure_specs (snd (select_dataset n s))))"
    by (simp add: select_dataset_def split: sum.splits)
next
  assume "distinct (map ms_alias (measure_specs s))"
  then show "distinct (map ms_alias (measure_specs (snd (add_filter c v s))))"
    by (simp add: add_filter_def split: sum.splits)
next
  show "distinct (map ms_alias (measure_specs (reset s)))"
    by (simp add: reset_def)
qed

lemma demo_visualization_twice:
  "fst (set_visualization ''bar'' [''region''] [''sum:monthly_spend'', ''sum:monthly_spend'']
          None None demo_state)
   = Inr \<lparr>viz_chart_type = ''bar'', viz_x_fields = [''region''],
          viz_y_measures = [''sum_monthly_spend'', ''sum_monthly_spend_2''],
          viz_breakdowns = [], viz_options = None\<rparr>"
  by code_simp

theorem set_visualization_aliases_witness:
  "map ms_alias (measure_specs (snd (set_visualization ''bar'' [''region'']
       [''sum:monthly_spend'', ''sum:monthly_spend''] None None demo_state)))
   = [''sum_monthly_spend'', ''sum_monthly_spend_2'']
   \<and> distinct (map ms_alias (measure_specs (snd (set_visualization ''bar'' [''region'']
       [''sum:monthly_spend'', ''sum:monthly_spend''] None None demo_state))))"
proof -
  let ?r = "set_visualization ''bar'' [''region'']
              [''sum:monthly_spend'', ''sum:monthly_spend''] None None demo_state"
  let ?spec = "\<lparr>viz_chart_type = ''bar'', viz_x_fields = [''region''],
                viz_y_measures = [''sum_monthly_spend'', ''sum_monthly_spend_2''],
                viz_breakdowns = [], viz_options = None\<rparr>"
  have run: "?r = (Inr ?spec, snd ?r)"
    using demo_visualization_twice by (simp add: prod_eq_iff)
  note rule = set_visualization_aliases [where ct = "''bar''" and xs = "[''region'']"
      and ys = "[''sum:monthly_spend'', ''sum:monthly_spend'']" and bs = None and os = None
      and s = demo_state and spec = ?spec and s' = "snd ?r" and n = "''payments''"
      and c = "''region''" and v = "Scalar (PStr ''India'')"]
  from rule run have "viz_y_measures ?spec = map ms_alias (measure_specs (snd ?r))"
    and "distinct (map ms_alias (measure_specs (snd ?r)))"
    by blast+
  then show ?thesis
    by simp
qed

subsection \<open>The WHERE clause of a two-valued set\<close>

text \<open>
  What the source compiles: one conjunct per filter, in the order of the filters, joined
  with AND; a tuple of exactly two items as BETWEEN, any other tuple as IN, a string in
  quotes and a number as it prints.
\<close>

lemma build_where_clause_conjuncts:
  "filters s \<noteq> [] \<Longrightarrow>
   build_where_clause str_float s
   = '' WHERE '' @ join '' AND '' (map (where_conjunct str_float) (filters s))"
  by (simp add: build_where_clause_def)

lemma where_conjunct_shapes:
  "where_conjunct str_float (col, Tuple [s, e])
   = col @ '' BETWEEN '' @ quoted (str_atom str_float s) @ '' AND '' @ quoted (str_atom str_float e)"
  "length items \<noteq> 2 \<Longrightarrow>
   where_conjunct str_float (col, Tuple items)
   = col @ '' IN ('' @ join '', '' (map (\<lambda>item. quoted (str_atom str_float item)) items) @ '')''"
  "where_conjunct str_float (col, Scalar (PStr v)) = col @ '' = '' @ quoted v"
  "where_conjunct str_float (col, Scalar (PInt i)) = col @ '' = '' @ str_int i"
  "where_conjunct str_float (col, Scalar (PFloat x)) = col @ '' = '' @ str_float x"
  by simp_all

text \<open>
  C1. The specification compiles a set of values to \<open>col IN (...)\<close> for every size from
  two on. In the source a set and a range are both tuples, and
  \<^verbatim>\<open>build_where_clause\<close> takes every tuple of length two for a range: the filter
  text \<^verbatim>\<open>region=India,Europe\<close>, which the usage hint of the session offers as the
  form \<^verbatim>\<open>column=value1,value2\<close>, parses to a tuple of two values and compiles to
  BETWEEN, while the same text with a third value compiles to IN.
\<close>

theorem two_value_set_compiles_to_between:
  "parse_filter env demo_state ''region=India,Europe''
   = Some (''region'', Tuple [PStr ''India'', PStr ''Europe''])
   \<and> build_where_clause str_float
       (snd (add_filter ''region'' (Tuple [PStr ''India'', PStr ''Europe'']) demo_state))
     = '' WHERE region BETWEEN '' @ quoted ''India'' @ '' AND '' @ quoted ''Europe''
   \<and> parse_filter env demo_state ''region=India,Europe,Asia''
     = Some (''region'', Tuple [PStr ''India'', PStr ''Europe'', PStr ''Asia''])
   \<and> build_where_clause str_float
       (snd (add_filter ''region'' (Tuple [PStr ''India'', PStr ''Europe'', PStr ''Asia''])
               demo_state))
     = '' WHERE region IN ('' @ quoted ''India'' @ '', '' @ quoted ''Europe'' @ '', ''
       @ quoted ''Asia'' @ '')''"
  by code_simp

subsection \<open>Precedence in visualization directives\<close>

text \<open>The value of the last pair with a given key, if there is one.\<close>

fun last_value :: "string \<Rightarrow> (string \<times> string) list \<Rightarrow> string option" where
  "last_value k [] = None"
| "last_value k (kv # kvs) =
     (case last_value k kvs of
        Some v \<Rightarrow> Some v
      | None \<Rightarrow> if fst kv = k then Some (snd kv) else None)"

lemma map_of_foldl_update:
  "map_of (foldl (\<lambda>d kv. AList.update (fst kv) (snd kv) d) d kvs) k
   = (case last_value k kvs of Some v \<Rightarrow> Some v | None \<Rightarrow> map_of d k)"
  by (induction kvs arbitrary: d) (auto simp: update_conv split: option.splits)

lemma map_of_dict_of: "map_of (dict_of kvs) k = last_value k kvs"
  by (simp add: dict_of_def map_of_foldl_update split: option.splits)

lemma match_token_nonempty: "match_token s = Some (t, r) \<Longrightarrow> t \<noteq> []"
  by (auto simp: match_token_def Let_def split: if_splits)

lemma kv_match_here_value: "kv_match_here s = Some ((k, v), r) \<Longrightarrow> v \<noteq> []"
  by (auto simp: kv_match_here_def Let_def dest: match_token_nonempty
      split: if_splits list.splits option.splits)

lemma findall_kv_values: "(k, v) \<in> set (findall_kv s) \<Longrightarrow> v \<noteq> []"
proof (induction s rule: findall_kv.induct)
  case 1
  then show ?case by simp
next
  case (2 c cs)
  show ?case
  proof (cases "kv_match_here (c # cs)")
    case None
    with "2.prems" have "(k, v) \<in> set (findall_kv cs)"
      by simp
    with "2.IH"(1) [OF None] show ?thesis .
  next
    case (Some m)
    obtain k' v' r where m: "(((k', v'), r)) = m"
      by (cases m) auto
    with Some "2.prems" have "(k, v) = (k', v') \<or> (k, v) \<in> set (findall_kv r)"
      by auto
    then show ?thesis
    proof
      assume "(k, v) = (k', v')"
      with Some m kv_match_here_value [of "c # cs" k' v' r] show ?thesis
        by simp
    next
      assume "(k, v) \<in> set (findall_kv r)"
      with "2.IH"(2) [OF Some m] show ?thesis .
    qed
  qed
qed

lemma last_value_mem: "last_value k kvs = Some v \<Longrightarrow> (k, v) \<in> set kvs"
  by (induction kvs) (auto split: option.splits if_splits)

lemma py_or_last_value:
  "py_or (last_value a (findall_kv s)) (last_value b (findall_kv s))
   = (case last_value a (findall_kv s) of
        Some v \<Rightarrow> Some v
      | None \<Rightarrow> last_value b (findall_kv s))"
  by (auto simp: py_or_def split: option.splits dest!: last_value_mem findall_kv_values)

lemma parse_visualisation_fields:
  assumes "parse_visualisation text = Some p"
  shows "Some (pl_chart_type p)
         = py_or (last_value ''chart'' (findall_kv (lower text)))
                 (last_value ''type'' (findall_kv (lower text)))"
    and "\<exists>v. py_or (last_value ''x'' (findall_kv (lower text)))
                    (last_value ''dimensions'' (findall_kv (lower text))) = Some v
             \<and> pl_x_fields p = comma_items v"
    and "\<exists>v. py_or (last_value ''y'' (findall_kv (lower text)))
                    (last_value ''metrics'' (findall_kv (lower text))) = Some v
             \<and> pl_y_measures p = comma_items v"
  using assms
  by (auto simp: parse_visualisation_def Let_def map_of_dict_of falsy_def
      split: if_splits option.splits)

text \<open>
  C10. In a directive that parses, with the pairs that \<^verbatim>\<open>findall\<close> returns on the
  lower-cased text: the chart type is the last value of \<open>chart\<close> when the key occurs, and
  the last value of \<open>type\<close> only when it does not; likewise the x-fields come from
  \<open>x\<close> before \<open>dimensions\<close> and the y-measures from \<open>y\<close> before \<open>metrics\<close>.
\<close>

theorem parse_visualisation_precedence:
  "parse_visualisation t = Some p \<Longrightarrow>
   (case last_value ''chart'' (findall_kv (lower t)) of
      Some v \<Rightarrow> pl_chart_type p = v
    | None \<Rightarrow> last_value ''type'' (findall_kv (lower t)) = Some (pl_chart_type p))
   \<and> (case last_value ''x'' (findall_kv (lower t)) of
      Some v \<Rightarrow> pl_x_fields p = comma_items v
    | None \<Rightarrow> (case last_value ''dimensions'' (findall_kv (lower t)) of
                 Some v \<Rightarrow> pl_x_fields p = comma_items v
               | None \<Rightarrow> False))
   \<and> (case last_value ''y'' (findall_kv (lower t)) of
      Some v \<Rightarrow> pl_y_measures p = comma_items v
    | None \<Rightarrow> (case last_value ''metrics'' (findall_kv (lower t)) of
                 Some v \<Rightarrow> pl_y_measures p = comma_items v
               | None \<Rightarrow> False))"
  using parse_visualisation_fields [of t p]
  by (auto simp: py_or_last_value split: option.splits)

text \<open>
  Two directives that parse. The first names every key and its synonym, \<open>chart\<close> and
  \<open>x\<close> twice; the second has the synonyms only.
\<close>

lemma example_directive:
  "parse_visualisation
     ''type=line chart=bar chart=pie dimensions=status x=region metrics=avg:monthly_spend y=sum:monthly_spend x=plan_type''
   = Some \<lparr>pl_chart_type = ''pie'', pl_x_fields = [''plan_type''],
           pl_y_measures = [''sum:monthly_spend''], pl_breakdowns = None, pl_options = None\<rparr>"
  by code_simp

lemma example_directive_values:
  "last_value ''chart'' (findall_kv (lower
     ''type=line chart=bar chart=pie dimensions=status x=region metrics=avg:monthly_spend y=sum:monthly_spend x=plan_type'')) = Some ''pie''"
  "last_value ''type'' (findall_kv (lower
     ''type=line chart=bar chart=pie dimensions=status x=region metrics=avg:monthly_spend y=sum:monthly_spend x=plan_type'')) = Some ''line''"
  "last_value ''x'' (findall_kv (lower
     ''type=line chart=bar chart=pie dimensions=status x=region metrics=avg:monthly_spend y=sum:monthly_spend x=plan_type'')) = Some ''plan_type''"
  "last_value ''dimensions'' (findall_kv (lower
     ''type=line chart=bar chart=pie dimensions=status x=region metrics=avg:monthly_spend y=sum:monthly_spend x=plan_type'')) = Some ''status''"
  "last_value ''y'' (findall_kv (lower
     ''type=line chart=bar chart=pie dimensions=status x=region metrics=avg:monthly_spend y=sum:monthly_spend x=plan_type'')) = Some ''sum:monthly_spend''"
  "last_value ''metrics'' (findall_kv (lower
     ''type=line chart=bar chart=pie dimensions=status x=region metrics=avg:monthly_spend y=sum:monthly_spend x=plan_type'')) = Some ''avg:monthly_spend''"
  by code_simp+

lemma example_synonyms:
  "parse_visualisation ''type=line dimensions=status metrics=avg:monthly_spend''
   = Some \<lparr>pl_chart_type = ''line'', pl_x_fields = [''status''],
           pl_y_measures = [''avg:monthly_spend''], pl_breakdowns = None, pl_options = None\<rparr>"
  by code_simp

lemma example_synonyms_values:
  "last_value ''chart'' (findall_kv (lower ''type=line dimensions=status metrics=avg:monthly_spend'')) = None"
  "last_value ''type'' (findall_kv (lower ''type=line dimensions=status metrics=avg:monthly_spend'')) = Some ''line''"
  "last_value ''x'' (findall_kv (lower ''type=line dimensions=status metrics=avg:monthly_spend'')) = None"
  "last_value ''dimensions'' (findall_kv (lower ''type=line dimensions=status metrics=avg:monthly_spend'')) = Some ''status''"
  "last_value ''y'' (findall_kv (lower ''type=line dimensions=status metrics=avg:monthly_spend'')) = None"
  "last_value ''metrics'' (findall_kv (lower ''type=line dimensions=status metrics=avg:monthly_spend'')) = Some ''avg:monthly_spend''"
  by code_simp+

theorem parse_visualisation_precedence_witness:
  "parse_visualisation
     ''type=line chart=bar chart=pie dimensions=status x=region metrics=avg:monthly_spend y=sum:monthly_spend x=plan_type''
   = Some \<lparr>pl_chart_type = ''pie'', pl_x_fields = [''plan_type''],
           pl_y_measures = [''sum:monthly_spend''], pl_breakdowns = None, pl_options = None\<rparr>
   \<and> last_value ''chart'' (findall_kv (lower
         ''type=line chart=bar chart=pie dimensions=status x=region metrics=avg:monthly_spend y=sum:monthly_spend x=plan_type''))
     = Some ''pie''
   \<and> last_value ''type'' (findall_kv (lower
         ''type=line chart=bar chart=pie dimensions=status x=region metrics=avg:monthly_spend y=sum:monthly_spend x=plan_type''))
     = Some ''line''
   \<and> pl_chart_type (the (parse_visualisation
         ''type=line chart=bar chart=pie dimensions=status x=region metrics=avg:monthly_spend y=sum:monthly_spend x=plan_type''))
     = ''pie''
   \<and> pl_x_fields (the (parse_visualisation
         ''type=line chart=bar chart=pie dimensions=status x=region metrics=avg:monthly_spend y=sum:monthly_spend x=plan_type''))
     = comma_items ''plan_type''
   \<and> pl_y_measures (the (parse_visualisation
         ''type=line chart=bar chart=pie dimensions=status x=region metrics=avg:monthly_spend y=sum:monthly_spend x=plan_type''))
     = comma_items ''sum:monthly_spend''
   \<and> parse_visualisation ''type=line dimensions=status metrics=avg:monthly_spend''
     = Some \<lparr>pl_chart_type = ''line'', pl_x_fields = [''status''],
             pl_y_measures = [''avg:monthly_spend''], pl_breakdowns = None, pl_options = None\<rparr>
   \<and> last_value ''chart'' (findall_kv (lower ''type=line dimensions=status metrics=avg:monthly_spend'')) = None
   \<and> last_value ''type'' (findall_kv (lower ''type=line dimensions=status metrics=avg:monthly_spend''))
     = Some (pl_chart_type (the (parse_visualisation ''type=line dimensions=status metrics=avg:monthly_spend'')))
   \<and> pl_x_fields (the (parse_visualisation ''type=line dimensions=status metrics=avg:monthly_spend''))
     = comma_items ''status''
   \<and> pl_y_measures (the (parse_visualisation ''type=line dimensions=status metrics=avg:monthly_spend''))
     = comma_items ''avg:monthly_spend''"
proof -
  have parsed: "parse_visualisation
       ''type=line chart=bar chart=pie dimensions=status x=region metrics=avg:monthly_spend y=sum:monthly_spend x=plan_type''
     = Some (the (parse_visualisation
       ''type=line chart=bar chart=pie dimensions=status x=region metrics=avg:monthly_spend y=sum:monthly_spend x=plan_type''))"
    using example_directive by simp
  have parsed_synonyms: "parse_visualisation ''type=line dimensions=status metrics=avg:monthly_spend''
     = Some (the (parse_visualisation ''type=line dimensions=status metrics=avg:monthly_spend''))"
    using example_synonyms by simp
  from parse_visualisation_precedence [OF parsed] have
    "pl_chart_type (the (parse_visualisation
       ''type=line chart=bar chart=pie dimensions=status x=region metrics=avg:monthly_spend y=sum:monthly_spend x=plan_type'')) = ''pie''"
    "pl_x_fields (the (parse_visualisation
       ''type=line chart=bar chart=pie dimensions=status x=region metrics=avg:monthly_spend y=sum:monthly_spend x=plan_type'')) = comma_items ''plan_type''"
    "pl_y_measures (the (parse_visualisation
       ''type=line chart=bar chart=pie dimensions=status x=region metrics=avg:monthly_spend y=sum:monthly_spend x=plan_type'')) = comma_items ''sum:monthly_spend''"
    by (simp_all add: example_directive_values)
  moreover from parse_visualisation_precedence [OF parsed_synonyms] have
    "last_value ''type'' (findall_kv (lower ''type=line dimensions=status metrics=avg:monthly_spend''))
     = Some (pl_chart_type (the (parse_visualisation ''type=line dimensions=status metrics=avg:monthly_spend'')))"
    "pl_x_fields (the (parse_visualisation ''type=line dimensions=status metrics=avg:monthly_spend'')) = comma_items ''status''"
    "pl_y_measures (the (parse_visualisation ''type=line dimensions=status metrics=avg:monthly_spend'')) = comma_items ''avg:monthly_spend''"
    by (simp_all add: example_synonyms_values)
  moreover note example_directive example_directive_values(1,2) example_synonyms
    example_synonyms_values(1)
  ultimately show ?thesis
    by (intro conjI)
qed

section \<open>Properties of the dialogue\<close>

lemma summarise_results_cases:
  "summarise_results env c = (r, c') \<Longrightarrow>
   agent c' = agent c \<and> (case r of Inl e \<Rightarrow> c' = c | Inr x \<Rightarrow> stage c' = ADJUST)"
  by (auto simp: summarise_results_def Let_def split: sum.splits option.splits)

lemma summarise_results_agent: "agent (snd (summarise_results env c)) = agent c"
  using summarise_results_cases [of env c "fst (summarise_results env c)" "snd (summarise_results env c)"]
  by simp

lemma reply_summary_snd: "snd (reply_summary f x) = snd x"
  by (simp add: reply_summary_def split: sum.splits prod.splits)

lemma summary_agent: "agent (snd (reply_summary f (summarise_results env c))) = agent c"
  by (simp add: reply_summary_snd summarise_results_agent)

lemma summary_reply:
  "reply_summary f (summarise_results env c) = (Reply r, c') \<Longrightarrow>
   stage c' = ADJUST \<and> agent c' = agent c"
  using summarise_results_cases [of env c "fst (summarise_results env c)" "snd (summarise_results env c)"]
  by (auto simp: reply_summary_def split: sum.splits prod.splits)

lemma start_context: "start c = (Reply Greeting, c\<lparr>stage := DATASET\<rparr>)"
  by (simp add: start_def)

subsection \<open>Filter keys\<close>

text \<open>
  The invariant of the filters: the keys are pairwise different and, when a dataset is
  active, each is the name of one of its columns.
\<close>

definition filters_valid :: "'f AgentState \<Rightarrow> bool" where
  "filters_valid s =
     (distinct (map fst (filters s)) \<and>
      (case dataset s of
         None \<Rightarrow> True
       | Some d \<Rightarrow> set (map fst (filters s)) \<subseteq> set (map col_name (ds_columns d))))"

lemma filters_valid_init: "filters_valid init_state"
  by (simp add: filters_valid_def init_state_def)

lemma filters_valid_reset: "filters_valid (reset s)"
  by (simp add: filters_valid_def reset_def)

lemma filters_valid_select_dataset:
  "filters_valid s \<Longrightarrow> select_dataset n s = (r, s') \<Longrightarrow> filters_valid s'"
  by (auto simp: filters_valid_def select_dataset_def split: sum.splits)

lemma filters_valid_add_filter:
  "filters_valid s \<Longrightarrow> add_filter col v s = (r, s') \<Longrightarrow> filters_valid s'"
proof -
  assume valid: "filters_valid s" and run: "add_filter col v s = (r, s')"
  show ?thesis
  proof (cases "dataset s")
    case None
    with run have "s' = s"
      by (simp add: add_filter_def require_dataset_def)
    with valid show ?thesis
      by simp
  next
    case (Some d)
    show ?thesis
    proof (cases "col \<in> set (map col_name (ds_columns d))")
      case False
      with Some run have "s' = s"
        by (simp add: add_filter_def require_dataset_def)
      with valid show ?thesis
        by simp
    next
      case True
      with Some run have s': "s' = s\<lparr>filters := AList.update col v (filters s)\<rparr>"
        by (simp add: add_filter_def require_dataset_def)
      have keys: "fst ` set (AList.update col v (filters s)) = insert col (fst ` set (filters s))"
        by (simp add: dom_update)
      from valid Some True show ?thesis
        unfolding s' filters_valid_def by (simp add: distinct_update keys)
    qed
  qed
qed

lemma filters_valid_set_visualization:
  "filters_valid s \<Longrightarrow> set_visualization ct xs ys bs os s = (r, s') \<Longrightarrow> filters_valid s'"
proof (cases r)
  case (Inl e)
  assume "filters_valid s" "set_visualization ct xs ys bs os s = (r, s')"
  with Inl set_visualization_fail [of ct xs ys bs os s e s'] show ?thesis
    by simp
next
  case (Inr spec)
  assume "filters_valid s" "set_visualization ct xs ys bs os s = (r, s')"
  with Inr set_visualization_ok [of ct xs ys bs os s spec s'] show ?thesis
    by (auto simp: filters_valid_def)
qed

lemma filters_valid_handle_dataset_selection:
  "filters_valid (agent c) \<Longrightarrow> filters_valid (agent (snd (handle_dataset_selection c t)))"
  by (auto simp: handle_dataset_selection_def split: option.splits prod.splits sum.splits
      dest: filters_valid_select_dataset)

lemma filters_valid_handle_visualisation:
  "filters_valid (agent c) \<Longrightarrow> filters_valid (agent (snd (handle_visualisation env c t)))"
  by (auto simp: handle_visualisation_def summary_agent split: option.splits prod.splits sum.splits
      dest: filters_valid_set_visualization)

lemma filters_valid_handle_filtering:
  "filters_valid (agent c) \<Longrightarrow> filters_valid (agent (snd (handle_filtering env c t)))"
  by (auto simp: handle_filtering_def split: option.splits prod.splits sum.splits
      dest: filters_valid_add_filter)

lemma filters_valid_handle_adjustment:
  "filters_valid (agent c) \<Longrightarrow> filters_valid (agent (snd (handle_adjustment env c t)))"
proof -
  assume valid: "filters_valid (agent c)"
  have viz: "filters_valid (agent (snd (handle_visualisation env (c\<lparr>stage := VISUALISATION\<rparr>) t)))"
    using valid filters_valid_handle_visualisation [of "c\<lparr>stage := VISUALISATION\<rparr>" env t]
    by simp
  have tweak: "filters_valid (agent (snd
      (case parse_filter env (agent c) (snd (split1 CHR '' '' t)) of
           None \<Rightarrow> (Reply FilterTweakHint, c)
         | Some (col, v) \<Rightarrow>
             (case add_filter col v (agent c) of
                (Inl e, a) \<Rightarrow> (except_ValueError e, c\<lparr>agent := a\<rparr>)
              | (Inr u, a) \<Rightarrow>
                  reply_summary (FilterAddedSummary col) (summarise_results env (c\<lparr>agent := a\<rparr>))))))"
    using valid
    by (auto simp: summary_agent split: option.splits prod.splits sum.splits
        dest: filters_valid_add_filter)
  show ?thesis
    unfolding handle_adjustment_def Let_def
    using valid viz tweak
    by (simp add: start_context new_context_def filters_valid_init summary_agent
        split: option.splits)
qed

lemma filters_valid_handle_input:
  "filters_valid (agent c) \<Longrightarrow> filters_valid (agent (snd (handle_input env c m)))"
  by (auto simp: handle_input_def Let_def handle_summary_follow_up_def start_context
      new_context_def filters_valid_init filters_valid_handle_dataset_selection
      filters_valid_handle_filtering filters_valid_handle_visualisation
      filters_valid_handle_adjustment split: ConversationStage.splits)

text \<open>
  C8. The invariant of the filter keys holds in a fresh session and is kept by
  select_dataset, add_filter, set_visualization and reset, whether they succeed or
  raise, and by every turn of the dialogue, however it ends.
\<close>

theorem filters_valid_preserved:
  "filters_valid (init_state :: 'f AgentState)
   \<and> (filters_valid (s :: 'f AgentState) \<longrightarrow>
        filters_valid (snd (select_dataset n s))
        \<and> filters_valid (snd (add_filter col v s))
        \<and> filters_valid (snd (set_visualization ct xs ys bs os s))
        \<and> filters_valid (reset s))
   \<and> (filters_valid (agent (c :: 'f ConversationContext)) \<longrightarrow>
        filters_valid (agent (snd (handle_input env c m))))"
  using filters_valid_select_dataset [of s n "fst (select_dataset n s)" "snd (select_dataset n s)"]
    filters_valid_add_filter [of s col v "fst (add_filter col v s)" "snd (add_filter col v s)"]
    filters_valid_set_visualization [of s ct xs ys bs os
      "fst (set_visualization ct xs ys bs os s)" "snd (set_visualization ct xs ys bs os s)"]
  by (simp add: filters_valid_init filters_valid_reset filters_valid_handle_input)

lemma demo_state_valid: "filters_valid demo_state"
  by code_simp

lemma demo_filter_turn:
  "filters (agent (snd (handle_input example_env
       \<lparr>agent = demo_state, stage = FILTERS, chart_path = None\<rparr> ''region=India'')))
   = [(''region'', Scalar (PStr ''India''))]"
  by code_simp

theorem filters_valid_preserved_witness:
  "filters_valid (agent (snd (handle_input example_env
       \<lparr>agent = demo_state, stage = FILTERS, chart_path = None\<rparr> ''region=India'')))
   \<and> filters (agent (snd (handle_input example_env
       \<lparr>agent = demo_state, stage = FILTERS, chart_path = None\<rparr> ''region=India'')))
     = [(''region'', Scalar (PStr ''India''))]
   \<and> filters_valid (snd (add_filter ''colour'' (Scalar (PStr ''red'')) demo_state))"
  using filters_valid_preserved [where s = demo_state and col = "''colour''"
      and v = "Scalar (PStr ''red'')" and n = "''payments''" and ct = "''bar''" and xs = "[]"
      and ys = "[]" and bs = None and os = None
      and c = "\<lparr>agent = demo_state, stage = FILTERS, chart_path = None\<rparr>"
      and env = example_env and m = "''region=India''"]
    demo_state_valid demo_filter_turn
  by simp

subsection \<open>The stage after a turn\<close>

lemma handle_visualisation_stage:
  "handle_visualisation env c t = (Reply r, c') \<Longrightarrow> stage c' = stage c \<or> stage c' = ADJUST"
  by (auto simp: handle_visualisation_def split: option.splits prod.splits sum.splits
      dest!: summary_reply)

lemma handle_visualisation_summary:
  "parse_visualisation t = Some p \<Longrightarrow>
   fst (set_visualization (pl_chart_type p) (pl_x_fields p) (pl_y_measures p)
          (pl_breakdowns p) (pl_options p) (agent c)) = Inr spec \<Longrightarrow>
   handle_visualisation env c t = (Reply r, c') \<Longrightarrow> stage c' = ADJUST"
  by (auto simp: handle_visualisation_def split: option.splits prod.splits sum.splits
      dest!: summary_reply)

lemma handle_adjustment_stage:
  "handle_adjustment env c t = (Reply r, c') \<Longrightarrow>
   stage c' = stage c \<or> stage c' = DATASET \<or> stage c' = VISUALISATION \<or> stage c' = ADJUST"
proof -
  assume run: "handle_adjustment env c t = (Reply r, c')"
  have viz: "handle_visualisation env (c\<lparr>stage := VISUALISATION\<rparr>) t = (Reply r, c') \<Longrightarrow>
             stage c' = VISUALISATION \<or> stage c' = ADJUST"
    using handle_visualisation_stage [of env "c\<lparr>stage := VISUALISATION\<rparr>" t r c'] by simp
  have tweak: "(case parse_filter env (agent c) (snd (split1 CHR '' '' t)) of
           None \<Rightarrow> (Reply FilterTweakHint, c)
         | Some (col, v) \<Rightarrow>
             (case add_filter col v (agent c) of
                (Inl e, a) \<Rightarrow> (except_ValueError e, c\<lparr>agent := a\<rparr>)
              | (Inr u, a) \<Rightarrow>
                  reply_summary (FilterAddedSummary col) (summarise_results env (c\<lparr>agent := a\<rparr>))))
        = (Reply r, c') \<Longrightarrow> stage c' = stage c \<or> stage c' = ADJUST"
    by (auto split: option.splits prod.splits sum.splits dest!: summary_reply)
  show ?thesis
    using run viz tweak
    unfolding handle_adjustment_def Let_def
    by (auto simp: start_context new_context_def split: if_splits option.splits
        dest!: summary_reply)
qed

lemma handle_input_stage:
  "stage c \<noteq> SUMMARY \<Longrightarrow> handle_input env c m = (Reply r, c') \<Longrightarrow> stage c' \<noteq> SUMMARY"
proof -
  assume start: "stage c \<noteq> SUMMARY" and run: "handle_input env c m = (Reply r, c')"
  have dataset: "handle_dataset_selection c (strip m) = (Reply r, c') \<Longrightarrow>
                 stage c' = stage c \<or> stage c' = FILTERS"
    by (auto simp: handle_dataset_selection_def split: option.splits prod.splits sum.splits)
  have filtering: "handle_filtering env c (strip m) = (Reply r, c') \<Longrightarrow>
                   stage c' = stage c \<or> stage c' = VISUALISATION"
    by (auto simp: handle_filtering_def
        split: option.splits prod.splits sum.splits if_splits)
  show ?thesis
    using start run dataset filtering
      handle_visualisation_stage [of env c "strip m" r c']
      handle_adjustment_stage [of env c "strip m" r c']
    by (auto simp: handle_input_def Let_def start_context new_context_def
        split: if_splits ConversationStage.splits)
qed

lemma run_turns_stage:
  "stage c \<noteq> SUMMARY \<Longrightarrow> run_turns env c ms = Some c' \<Longrightarrow> stage c' \<noteq> SUMMARY"
proof (induction ms arbitrary: c)
  case Nil
  then show ?case by simp
next
  case (Cons m ms)
  obtain out c1 where step: "handle_input env c m = (out, c1)"
    by (cases "handle_input env c m")
  show ?case
  proof (cases out)
    case (Reply r)
    with step Cons.prems(1) have "stage c1 \<noteq> SUMMARY"
      using handle_input_stage [of c env m r c1] by simp
    moreover from step Reply Cons.prems(2) have "run_turns env c1 ms = Some c'"
      by simp
    ultimately show ?thesis
      by (rule Cons.IH)
  next
    case (Raised e)
    with step Cons.prems(2) show ?thesis
      by simp
  qed
qed

text \<open>
  C9. No session starts in SUMMARY, neither before nor after the greeting. A turn that
  starts outside SUMMARY and ends with a reply ends outside SUMMARY, so every context
  that a conversation reaches from a stage other than SUMMARY is outside SUMMARY. And a
  visualization turn whose directive parses and validates, the only one that sets
  SUMMARY, ends in ADJUST when it replies.
\<close>

theorem summary_is_transient:
  "stage (new_context :: 'f ConversationContext) \<noteq> SUMMARY
   \<and> stage (snd (start (c0 :: 'f ConversationContext) :: ('f, 'r) outcome \<times> 'f ConversationContext))
       \<noteq> SUMMARY
   \<and> (stage (c :: 'f ConversationContext) \<noteq> SUMMARY \<and> handle_input (env :: ('f, 'r) Env) c m = (Reply r, c') \<longrightarrow> stage c' \<noteq> SUMMARY)
   \<and> (stage c \<noteq> SUMMARY \<and> run_turns env c ms = Some c'' \<longrightarrow> stage c'' \<noteq> SUMMARY)
   \<and> (parse_visualisation t = Some p
      \<and> fst (set_visualization (pl_chart_type p) (pl_x_fields p) (pl_y_measures p)
               (pl_breakdowns p) (pl_options p) (agent c)) = Inr spec
      \<and> handle_visualisation env c t = (Reply r', c''') \<longrightarrow> stage c''' = ADJUST)"
  using handle_input_stage [of c env m r c'] run_turns_stage [of c env ms c'']
    handle_visualisation_summary [of t p c spec env r' c''']
  by (simp add: new_context_def start_context)

text \<open>The context that the conversation of the end-to-end example reaches.\<close>

definition demo_context :: "unit ConversationContext" where
  "demo_context =
     \<lparr>agent = snd (set_visualization ''bar'' [''region''] [''sum:monthly_spend''] None None
                     (snd (add_filter ''region'' (Scalar (PStr ''India'')) demo_state))),
      stage = ADJUST, chart_path = None\<rparr>"

lemma demo_conversation:
  "run_turns example_env new_context
     [''reset'', ''subscribers'', ''region=India'', ''done'',
      ''chart=bar x=region y=sum:monthly_spend'']
   = Some demo_context"
  by code_simp

theorem summary_is_transient_witness:
  "run_turns example_env new_context
     [''reset'', ''subscribers'', ''region=India'', ''done'',
      ''chart=bar x=region y=sum:monthly_spend'']
   = Some demo_context
   \<and> stage demo_context \<noteq> SUMMARY"
proof -
  have "stage (new_context :: unit ConversationContext) \<noteq> SUMMARY"
    by (simp add: new_context_def)
  with summary_is_transient [where c = "new_context :: unit ConversationContext"
      and env = example_env
      and ms = "[''reset'', ''subscribers'', ''region=India'', ''done'',
                 ''chart=bar x=region y=sum:monthly_spend'']"
      and c'' = demo_context] demo_conversation
  show ?thesis
    by blast
qed

subsection \<open>Turns whose text does not parse\<close>

text \<open>
  C7, as the specification states it, fails in ADJUST: a text with a directive token
  moves the stage to VISUALISATION before the directive is parsed, and the stage stays
  there when the parse fails. The context of the example conversation, in ADJUST, and
  the text \<^verbatim>\<open>x=region\<close> show it.
\<close>

theorem parse_failure_in_adjust_moves_stage:
  "stage demo_context = ADJUST
   \<and> parse_visualisation ''x=region'' = None
   \<and> handle_input example_env demo_context ''x=region''
     = (Reply VisualisationHint, demo_context\<lparr>stage := VISUALISATION\<rparr>)
   \<and> stage (snd (handle_input example_env demo_context ''x=region'')) \<noteq> stage demo_context"
  by code_simp

text \<open>
  C7, amended. Take a turn whose stripped text \<open>t\<close> is not empty and is no global
  command. If the stage is FILTERS, \<open>t\<close> is none of done, next, visual and the filter
  parse fails, the reply is the filter hint and the context is unchanged. If the stage is
  VISUALISATION and the directive parse fails, the reply is the directive hint and the
  context is unchanged. If the stage is ADJUST (or SUMMARY) and \<open>t\<close> is neither a reset
  nor a refresh command: when \<open>t\<close> holds a directive token and the directive parse
  fails, the reply is the directive hint and the context is unchanged but for the stage,
  which is VISUALISATION; when \<open>t\<close> holds no such token, starts with "filter " and
  the parse of the rest fails, the reply is the filter-tweak hint and the context is
  unchanged.
\<close>

theorem parse_failure_turn:
  "t = strip m \<Longrightarrow> t \<noteq> [] \<Longrightarrow>
   lower t \<notin> set [''quit'', ''exit'', ''help'', ''?'', ''reset'', ''restart''] \<Longrightarrow>
   (stage c = FILTERS \<and> lower t \<notin> set [''done'', ''next'', ''visual'']
      \<and> parse_filter env (agent c) t = None \<longrightarrow>
      handle_input env c m = (Reply FilterHint, c))
   \<and> (stage c = VISUALISATION \<and> parse_visualisation t = None \<longrightarrow>
      handle_input env c m = (Reply VisualisationHint, c))
   \<and> ((stage c = ADJUST \<or> stage c = SUMMARY)
      \<and> lower t \<notin> set [''again'', ''restart'', ''reset'', ''new'']
      \<and> lower t \<notin> set [''refresh'', ''show'', ''show chart'', ''render'', ''update''] \<longrightarrow>
      (list_ex (\<lambda>token. contains (lower t) token) viz_tokens \<and> parse_visualisation t = None \<longrightarrow>
         handle_input env c m = (Reply VisualisationHint, c\<lparr>stage := VISUALISATION\<rparr>))
      \<and> (\<not> list_ex (\<lambda>token. contains (lower t) token) viz_tokens
         \<and> startswith (lower t) ''filter ''
         \<and> parse_filter env (agent c) (snd (split1 CHR '' '' t)) = None \<longrightarrow>
         handle_input env c m = (Reply FilterTweakHint, c)))"
  by (auto simp: handle_input_def Let_def handle_filtering_def handle_visualisation_def
      handle_summary_follow_up_def handle_adjustment_def)

lemma example_unparsed_filter:
  "strip ''  hello world '' = ''hello world''"
  "lower ''hello world'' \<notin> set [''quit'', ''exit'', ''help'', ''?'', ''reset'', ''restart'']"
  "lower ''hello world'' \<notin> set [''done'', ''next'', ''visual'']"
  "parse_filter example_env demo_state ''hello world'' = None"
  by code_simp+

lemma example_unparsed_tweak:
  "strip ''filter nonsense'' = ''filter nonsense''"
  "lower ''filter nonsense'' \<notin> set [''quit'', ''exit'', ''help'', ''?'', ''reset'', ''restart'']"
  "lower ''filter nonsense'' \<notin> set [''again'', ''restart'', ''reset'', ''new'']"
  "lower ''filter nonsense'' \<notin> set [''refresh'', ''show'', ''show chart'', ''render'', ''update'']"
  "\<not> list_ex (\<lambda>token. contains (lower ''filter nonsense'') token) viz_tokens"
  "startswith (lower ''filter nonsense'') ''filter ''"
  "parse_filter example_env (agent demo_context) (snd (split1 CHR '' '' ''filter nonsense'')) = None"
  "stage demo_context = ADJUST"
  by code_simp+

theorem parse_failure_turn_witness:
  "handle_input example_env \<lparr>agent = demo_state, stage = FILTERS, chart_path = None\<rparr>
     ''  hello world ''
   = (Reply FilterHint, \<lparr>agent = demo_state, stage = FILTERS, chart_path = None\<rparr>)
   \<and> handle_input example_env demo_context ''filter nonsense''
     = (Reply FilterTweakHint, demo_context)"
proof -
  have "handle_input example_env \<lparr>agent = demo_state, stage = FILTERS, chart_path = None\<rparr>
          ''  hello world ''
        = (Reply FilterHint, \<lparr>agent = demo_state, stage = FILTERS, chart_path = None\<rparr>)"
    using parse_failure_turn [where t = "''hello world''" and m = "''  hello world ''"
        and c = "\<lparr>agent = demo_state, stage = FILTERS, chart_path = None\<rparr>"
        and env = example_env]
      example_unparsed_filter
    by simp
  moreover have "handle_input example_env demo_context ''filter nonsense''
        = (Reply FilterTweakHint, demo_context)"
    using parse_failure_turn [where t = "''filter nonsense''" and m = "''filter nonsense''"
        and c = demo_context and env = example_env]
      example_unparsed_tweak
    by simp
  ultimately show ?thesis
    by (rule conjI)
qed

end
